theory Spec2Isabelle
  imports Complex_Main
begin

section \<open>Data model\<close>

text \<open>
  The program is JavaScript. Its numbers are modelled as the real numbers, the reading under
  which the specification states its properties ("every real t", "polynomial identity");
  rounding, overflow and NaN of IEEE doubles are outside this model.

  A point or vector is the object literal \<^verbatim>\<open>{x, y}\<close>. Points are values here, as in the
  specification's data model: two slots of an array never hold the same object.
\<close>

record point =
  x :: real
  y :: real

text \<open>
  What a JavaScript statement can end in: it returns, or it throws. The fields written
  before a throw stay written, so both carry the state reached.
\<close>

datatype error = Error string | TypeError

datatype 's outcome = Returned 's | Threw error 's

fun final :: "'s outcome \<Rightarrow> 's" where
  "final (Returned s) = s"
| "final (Threw e s) = s"

fun returns :: "'s outcome \<Rightarrow> bool" where
  "returns (Returned s) = True"
| "returns (Threw e s) = False"

text \<open>
  Reading \<^verbatim>\<open>a[i]\<close>: the element, or \<^verbatim>\<open>undefined\<close> (here \<open>None\<close>) past the end of
  the array. Reading a property of \<^verbatim>\<open>undefined\<close> throws a TypeError.
\<close>

definition lookup :: "'a list \<Rightarrow> nat \<Rightarrow> 'a option" where
  "lookup a i = (if i < length a then Some (a ! i) else None)"

section \<open>bezier.js\<close>

record BezierCurve =
  controlPoints :: "point list"
  curvePoints :: "point list"
  sampleDensity :: nat

definition BezierCurve_constructor :: BezierCurve where
  "BezierCurve_constructor = \<lparr>controlPoints = [], curvePoints = [], sampleDensity = 200\<rparr>"

definition calculatePoint :: "BezierCurve \<Rightarrow> real \<Rightarrow> error + point" where
  "calculatePoint b t =
     (if length (controlPoints b) \<noteq> 4
      then Inl (Error ''Bezier curve requires exactly 4 control points'')
      else
        let p0 = controlPoints b ! 0;
            p1 = controlPoints b ! 1;
            p2 = controlPoints b ! 2;
            p3 = controlPoints b ! 3;
            u = 1 - t;
            u2 = u * u;
            u3 = u2 * u;
            t2 = t * t;
            t3 = t2 * t
        in Inr \<lparr>x = u3 * x p0 + 3 * u2 * t * x p1 + 3 * u * t2 * x p2 + t3 * x p3,
                y = u3 * y p0 + 3 * u2 * t * y p1 + 3 * u * t2 * y p2 + t3 * y p3\<rparr>)"

definition calculateTangent :: "BezierCurve \<Rightarrow> real \<Rightarrow> error + point" where
  "calculateTangent b t =
     (if length (controlPoints b) \<noteq> 4
      then Inl (Error ''Bezier curve requires exactly 4 control points'')
      else
        let p0 = controlPoints b ! 0;
            p1 = controlPoints b ! 1;
            p2 = controlPoints b ! 2;
            p3 = controlPoints b ! 3;
            u = 1 - t;
            u2 = u * u;
            t2 = t * t
        in Inr \<lparr>x = 3 * u2 * (x p1 - x p0) + 6 * u * t * (x p2 - x p1) + 3 * t2 * (x p3 - x p2),
                y = 3 * u2 * (y p1 - y p0) + 6 * u * t * (y p2 - y p1) + 3 * t2 * (y p3 - y p2)\<rparr>)"

text \<open>
  \<^verbatim>\<open>calculateNormalizedTangent\<close> lets the error of \<^verbatim>\<open>calculateTangent\<close> pass through.
  In JavaScript a division by zero is no error either; the test on \<^verbatim>\<open>length === 0\<close>
  comes before the divisions.
\<close>

definition calculateNormalizedTangent :: "BezierCurve \<Rightarrow> real \<Rightarrow> error + point" where
  "calculateNormalizedTangent b t =
     (case calculateTangent b t of
        Inl e \<Rightarrow> Inl e
      | Inr tangent \<Rightarrow>
          let length = sqrt (x tangent * x tangent + y tangent * y tangent)
          in if length = 0 then Inr \<lparr>x = 0, y = 0\<rparr>
             else Inr \<lparr>x = x tangent / length, y = y tangent / length\<rparr>)"

text \<open>The control points of the repository's demo script.\<close>

definition demo_controlPoints :: "point list" where
  "demo_controlPoints =
     [\<lparr>x = 100, y = 100\<rparr>, \<lparr>x = 200, y = 50\<rparr>, \<lparr>x = 300, y = 150\<rparr>, \<lparr>x = 400, y = 100\<rparr>]"

definition demo_bezier :: BezierCurve where
  "demo_bezier = BezierCurve_constructor\<lparr>controlPoints := demo_controlPoints\<rparr>"

text \<open>Two more curves: a straight one traversed at unit speed, and one shrunk to a point.\<close>

definition straight_bezier :: BezierCurve where
  "straight_bezier = BezierCurve_constructor
     \<lparr>controlPoints := [\<lparr>x = 0, y = 0\<rparr>, \<lparr>x = 1 / 3, y = 0\<rparr>, \<lparr>x = 2 / 3, y = 0\<rparr>,
                        \<lparr>x = 1, y = 0\<rparr>]\<rparr>"

definition stationary_bezier :: BezierCurve where
  "stationary_bezier = BezierCurve_constructor
     \<lparr>controlPoints := [\<lparr>x = 5, y = 5\<rparr>, \<lparr>x = 5, y = 5\<rparr>, \<lparr>x = 5, y = 5\<rparr>, \<lparr>x = 5, y = 5\<rparr>]\<rparr>"

section \<open>physics.js\<close>

record PhysicsSystem =
  springConstant :: real
  damping :: real
  velocities :: "point list"
  restPositions :: "point list"
  mouseInfluence :: real

definition PhysicsSystem_constructor :: PhysicsSystem where
  "PhysicsSystem_constructor =
     \<lparr>springConstant = 0.15, damping = 0.88, velocities = [], restPositions = [],
      mouseInfluence = 0.8\<rparr>"

text \<open>
  The methods of \<^verbatim>\<open>PhysicsSystem\<close> mutate the simulator and, through the array they are
  handed, the control points. Their state is the pair of both.
\<close>

type_synonym world = "PhysicsSystem \<times> point list"

text \<open>
  \<^verbatim>\<open>setupControlPoints\<close>: both arrays are emptied, then the loop pushes a zero velocity and
  a copy of the control point for each index.
\<close>

function setup_loop :: "nat \<Rightarrow> point list \<Rightarrow> PhysicsSystem \<Rightarrow> PhysicsSystem" where
  "setup_loop i cps ps =
     (if i < length cps
      then setup_loop (i + 1) cps
             (ps\<lparr>velocities := velocities ps @ [\<lparr>x = 0, y = 0\<rparr>],
                 restPositions := restPositions ps @ [cps ! i]\<rparr>)
      else ps)"
  by pat_completeness auto
termination
  by (relation "measure (\<lambda>(i, cps, ps). length cps - i)") auto

declare setup_loop.simps [simp del]

definition setupControlPoints :: "PhysicsSystem \<Rightarrow> point list \<Rightarrow> PhysicsSystem" where
  "setupControlPoints ps cps = setup_loop 0 cps (ps\<lparr>velocities := [], restPositions := []\<rparr>)"

text \<open>
  The body of the loop of \<^verbatim>\<open>update\<close> for one index. The first property read of
  \<^verbatim>\<open>restPosition\<close> and of \<^verbatim>\<open>velocity\<close> throws when the simulator has no entry at
  the index; nothing has been written by then.
\<close>

fun update_body :: "nat \<Rightarrow> world \<Rightarrow> world outcome" where
  "update_body i (ps, cps) =
     (if i \<ge> length cps then Returned (ps, cps)
      else
        let point = cps ! i in
        (case lookup (restPositions ps) i of
           None \<Rightarrow> Threw TypeError (ps, cps)
         | Some restPosition \<Rightarrow>
             let displacementX = x point - x restPosition;
                 displacementY = y point - y restPosition;
                 springForceX = - springConstant ps * displacementX;
                 springForceY = - springConstant ps * displacementY
             in
             (case lookup (velocities ps) i of
                None \<Rightarrow> Threw TypeError (ps, cps)
              | Some velocity \<Rightarrow>
                  let dampingForceX = - damping ps * x velocity;
                      dampingForceY = - damping ps * y velocity;
                      accelerationX = springForceX + dampingForceX;
                      accelerationY = springForceY + dampingForceY;
                      velocity1 = \<lparr>x = x velocity + accelerationX,
                                   y = y velocity + accelerationY\<rparr>;
                      point1 = \<lparr>x = x point + x velocity1, y = y point + y velocity1\<rparr>;
                      velocity2 = \<lparr>x = x velocity1 * 0.995, y = y velocity1 * 0.995\<rparr>
                  in Returned (ps\<lparr>velocities := (velocities ps)[i := velocity2]\<rparr>,
                               cps[i := point1]))))"

declare update_body.simps [simp del]

function update_loop :: "nat \<Rightarrow> world \<Rightarrow> world outcome" where
  "update_loop i s =
     (if i \<le> 2
      then (case update_body i s of
              Threw e s' \<Rightarrow> Threw e s'
            | Returned s' \<Rightarrow> update_loop (i + 1) s')
      else Returned s)"
  by pat_completeness auto
termination
  by (relation "measure (\<lambda>(i, s). 3 - i)") auto

declare update_loop.simps [simp del]

definition update :: "PhysicsSystem \<Rightarrow> point list \<Rightarrow> world outcome" where
  "update ps cps = update_loop 1 (ps, cps)"

text \<open>
  \<^verbatim>\<open>applyForceToPoint\<close>. The index is a control point index, an integer. The rest position
  is written before \<^verbatim>\<open>this.velocities[index].x\<close> is read, so a throw at the velocity
  leaves the rest position moved.
\<close>

definition applyForceToPoint ::
    "PhysicsSystem \<Rightarrow> int \<Rightarrow> real \<Rightarrow> real \<Rightarrow> point list \<Rightarrow> world outcome" where
  "applyForceToPoint ps index targetX targetY cps =
     (if index < 1 \<or> index > 2 \<or> index \<ge> int (length cps) then Returned (ps, cps)
      else
        let i = nat index;
            point = cps ! i
        in
        (case lookup (restPositions ps) i of
           None \<Rightarrow> Threw TypeError (ps, cps)
         | Some restPosition \<Rightarrow>
            let restPosition1 =
                  \<lparr>x = x restPosition + (targetX - x restPosition) * mouseInfluence ps,
                   y = y restPosition + (targetY - y restPosition) * mouseInfluence ps\<rparr>;
                ps1 = ps\<lparr>restPositions := (restPositions ps)[i := restPosition1]\<rparr>
            in
            (case lookup (velocities ps) i of
               None \<Rightarrow> Threw TypeError (ps1, cps)
             | Some velocity \<Rightarrow>
                 Returned
                   (ps1\<lparr>velocities :=
                          (velocities ps)[i := \<lparr>x = x velocity + (targetX - x point) * 0.1,
                                               y = y velocity + (targetY - y point) * 0.1\<rparr>]\<rparr>,
                    cps))))"

text \<open>
  \<^verbatim>\<open>resetPoint\<close> receives an index only. A negative index passes the test against the
  length and then names a property that is no element of the array, so no element changes.
  The two arrays of the simulator have the same length after every method (lemma
  \<open>same_length\<close> below), so an index below \<^verbatim>\<open>restPositions.length\<close> is inside
  \<^verbatim>\<open>velocities\<close>, where the list update is the array write.
\<close>

definition resetPoint :: "PhysicsSystem \<Rightarrow> int \<Rightarrow> PhysicsSystem" where
  "resetPoint ps index =
     (if index < int (length (restPositions ps))
      then (if 0 \<le> index
            then ps\<lparr>velocities := (velocities ps)[nat index := \<lparr>x = 0, y = 0\<rparr>]\<rparr>
            else ps)
      else ps)"

definition setSpringConstant :: "PhysicsSystem \<Rightarrow> real \<Rightarrow> PhysicsSystem" where
  "setSpringConstant ps k = ps\<lparr>springConstant := max 0.01 (min 0.5 k)\<rparr>"

definition setDamping :: "PhysicsSystem \<Rightarrow> real \<Rightarrow> PhysicsSystem" where
  "setDamping ps d = ps\<lparr>damping := max 0.7 (min 0.99 d)\<rparr>"

text \<open>
  A simulator at rest whose anchor at index 1 lies 100 units away from point 1 of the demo
  curve.
\<close>

definition displaced_physics :: PhysicsSystem where
  "displaced_physics = PhysicsSystem_constructor
     \<lparr>velocities := [\<lparr>x = 0, y = 0\<rparr>, \<lparr>x = 0, y = 0\<rparr>, \<lparr>x = 0, y = 0\<rparr>, \<lparr>x = 0, y = 0\<rparr>],
      restPositions := [\<lparr>x = 100, y = 100\<rparr>, \<lparr>x = 200, y = 150\<rparr>, \<lparr>x = 300, y = 150\<rparr>,
                        \<lparr>x = 400, y = 100\<rparr>]\<rparr>"

text \<open>
  \<open>n\<close> successive calls of \<^verbatim>\<open>update\<close> on the same array, one per frame; a throw ends
  the run.
\<close>

fun repeat_update :: "nat \<Rightarrow> world \<Rightarrow> world outcome" where
  "repeat_update 0 s = Returned s"
| "repeat_update (Suc n) s =
     (case update (fst s) (snd s) of
        Threw e s' \<Rightarrow> Threw e s'
      | Returned s' \<Rightarrow> repeat_update n s')"

text \<open>
  How far a dynamic point is from rest: the largest absolute value among the coordinates of
  its displacement from the anchor and of its velocity. A state is well formed when the
  simulator has a velocity and a rest position for every control point.
\<close>

definition amplitude :: "nat \<Rightarrow> world \<Rightarrow> real" where
  "amplitude i s =
     max (max \<bar>x (snd s ! i) - x (restPositions (fst s) ! i)\<bar> \<bar>x (velocities (fst s) ! i)\<bar>)
         (max \<bar>y (snd s ! i) - y (restPositions (fst s) ! i)\<bar> \<bar>y (velocities (fst s) ! i)\<bar>)"

definition well_formed :: "world \<Rightarrow> bool" where
  "well_formed s \<longleftrightarrow>
     length (snd s) \<le> length (velocities (fst s)) \<and>
     length (snd s) \<le> length (restPositions (fst s))"

section \<open>input.js\<close>

text \<open>
  The handler holds references to the curve and to the simulator; the record holds their
  current contents. The canvas enters only through \<^verbatim>\<open>getBoundingClientRect\<close>, whose
  \<^verbatim>\<open>left\<close> and \<^verbatim>\<open>top\<close> are arguments of \<open>handleMouseMove\<close> beside the event's
  \<^verbatim>\<open>clientX\<close> and \<^verbatim>\<open>clientY\<close>. The constructor also registers the listeners
  (\<^verbatim>\<open>setupEventListeners\<close>); what they deliver are the events of \<open>handle\<close> below.
\<close>

record InputHandler =
  bezier :: BezierCurve
  physics :: PhysicsSystem
  mouse :: point
  isInteracting :: bool
  activePointIndex :: int
  interactionRadius :: real

definition InputHandler_constructor :: "BezierCurve \<Rightarrow> PhysicsSystem \<Rightarrow> InputHandler" where
  "InputHandler_constructor b ps =
     \<lparr>bezier = b, physics = ps, mouse = \<lparr>x = 0, y = 0\<rparr>, isInteracting = False,
      activePointIndex = - 1, interactionRadius = 80\<rparr>"

text \<open>
  The call \<^verbatim>\<open>this.physics.applyForceToPoint(index, this.mouse.x, this.mouse.y,
  this.bezier.controlPoints)\<close>, which all three handlers make.
\<close>

fun store :: "InputHandler \<Rightarrow> world \<Rightarrow> InputHandler" where
  "store h (ps, cps) = h\<lparr>physics := ps, bezier := (bezier h)\<lparr>controlPoints := cps\<rparr>\<rparr>"

definition call_applyForceToPoint :: "InputHandler \<Rightarrow> int \<Rightarrow> InputHandler outcome" where
  "call_applyForceToPoint h index =
     (case applyForceToPoint (physics h) index (x (mouse h)) (y (mouse h))
             (controlPoints (bezier h)) of
        Returned w \<Rightarrow> Returned (store h w)
      | Threw e w \<Rightarrow> Threw e (store h w))"

definition handleMouseMove ::
    "InputHandler \<Rightarrow> real \<Rightarrow> real \<Rightarrow> real \<Rightarrow> real \<Rightarrow> InputHandler outcome" where
  "handleMouseMove h clientX clientY rect_left rect_top =
     (let h1 = h\<lparr>mouse := \<lparr>x = clientX - rect_left, y = clientY - rect_top\<rparr>\<rparr>
      in if isInteracting h1 \<and> activePointIndex h1 \<noteq> - 1
         then call_applyForceToPoint h1 (activePointIndex h1)
         else Returned h1)"

definition distance :: "point \<Rightarrow> point \<Rightarrow> real" where
  "distance p q = sqrt ((x p - x q)\<^sup>2 + (y p - y q)\<^sup>2)"

function handleMouseDown_loop :: "nat \<Rightarrow> InputHandler \<Rightarrow> InputHandler outcome" where
  "handleMouseDown_loop i h =
     (if i \<le> 2
      then (if i \<ge> length (controlPoints (bezier h)) then handleMouseDown_loop (i + 1) h
            else if distance (mouse h) (controlPoints (bezier h) ! i) < interactionRadius h
            then call_applyForceToPoint
                   (h\<lparr>isInteracting := True, activePointIndex := int i\<rparr>) (int i)
            else handleMouseDown_loop (i + 1) h)
      else Returned h)"
  by pat_completeness auto
termination
  by (relation "measure (\<lambda>(i, h). 3 - i)") auto

declare handleMouseDown_loop.simps [simp del]

definition handleMouseDown :: "InputHandler \<Rightarrow> InputHandler outcome" where
  "handleMouseDown h = handleMouseDown_loop 1 h"

definition handleMouseUp :: "InputHandler \<Rightarrow> InputHandler" where
  "handleMouseUp h = h\<lparr>isInteracting := False, activePointIndex := - 1\<rparr>"

definition handleMouseLeave :: "InputHandler \<Rightarrow> InputHandler" where
  "handleMouseLeave h = h\<lparr>isInteracting := False, activePointIndex := - 1\<rparr>"

text \<open>\<^verbatim>\<open>InputHandler.update\<close>, the per-frame call.\<close>

definition InputHandler_update :: "InputHandler \<Rightarrow> InputHandler outcome" where
  "InputHandler_update h =
     (if isInteracting h \<and> activePointIndex h \<noteq> - 1
      then call_applyForceToPoint h (activePointIndex h)
      else Returned h)"

definition setInteractionRadius :: "InputHandler \<Rightarrow> real \<Rightarrow> InputHandler" where
  "setInteractionRadius h radius = h\<lparr>interactionRadius := radius\<rparr>"

text \<open>
  The calls a handler can receive, and the states it can be in. A handler that throws leaves
  the handler as it was at the throw, and the page goes on delivering events. Between two
  calls the rest of the page (the frame loop, the sliders) may change the curve and the
  simulator in any way: rule \<open>environment\<close>.
\<close>

datatype event =
    MouseMove real real real real
  | MouseDown
  | MouseUp
  | MouseLeave
  | Update
  | SetInteractionRadius real

fun handle :: "event \<Rightarrow> InputHandler \<Rightarrow> InputHandler outcome" where
  "handle (MouseMove clientX clientY rect_left rect_top) h =
     handleMouseMove h clientX clientY rect_left rect_top"
| "handle MouseDown h = handleMouseDown h"
| "handle MouseUp h = Returned (handleMouseUp h)"
| "handle MouseLeave h = Returned (handleMouseLeave h)"
| "handle Update h = InputHandler_update h"
| "handle (SetInteractionRadius radius) h = Returned (setInteractionRadius h radius)"

inductive reachable :: "InputHandler \<Rightarrow> bool" where
  constructed: "reachable (InputHandler_constructor b ps)"
| handled: "reachable h \<Longrightarrow> reachable (final (handle e h))"
| environment: "reachable h \<Longrightarrow> reachable (h\<lparr>bezier := b, physics := ps\<rparr>)"

text \<open>What the two fields of the interaction state are to each other.\<close>

definition interaction_invariant :: "InputHandler \<Rightarrow> bool" where
  "interaction_invariant h \<longleftrightarrow>
     (isInteracting h \<longleftrightarrow> activePointIndex h \<in> {1, 2}) \<and>
     (\<not> isInteracting h \<longrightarrow> activePointIndex h = - 1)"

text \<open>
  A handler on the demo curve, with an initialized simulator, after the pointer has moved
  onto point 1 and the button has gone down.
\<close>

definition pressed_handler :: InputHandler where
  "pressed_handler =
     final (handle MouseDown
       (final (handle (MouseMove 200 50 0 0)
          (InputHandler_constructor demo_bezier
             (setupControlPoints PhysicsSystem_constructor demo_controlPoints)))))"

section \<open>The specification's step, in its own words\<close>

text \<open>
  Section 4.2 of the specification describes one step of a dynamic point with vectors:
  displacement \<open>d = p - a\<close>, spring force \<open>- k d\<close>, damping force \<open>- c v\<close>, their sum
  added to the velocity, the new velocity added to the position, then the velocity
  multiplied by 0.995. \<open>spring_step\<close> returns the new position and the new velocity.
\<close>

definition vadd :: "point \<Rightarrow> point \<Rightarrow> point" where
  "vadd p q = \<lparr>x = x p + x q, y = y p + y q\<rparr>"

definition vsub :: "point \<Rightarrow> point \<Rightarrow> point" where
  "vsub p q = \<lparr>x = x p - x q, y = y p - y q\<rparr>"

definition smul :: "real \<Rightarrow> point \<Rightarrow> point" where
  "smul r p = \<lparr>x = r * x p, y = r * y p\<rparr>"

definition spring_step :: "real \<Rightarrow> real \<Rightarrow> point \<Rightarrow> point \<Rightarrow> point \<Rightarrow> point \<times> point" where
  "spring_step k c p v a =
     (let d = vsub p a;
          F_s = smul (- k) d;
          F_d = smul (- c) v;
          acc = vadd F_s F_d;
          v1 = vadd v acc;
          p1 = vadd p v1
      in (p1, smul 0.995 v1))"

definition spec_step_index :: "nat \<Rightarrow> world \<Rightarrow> world" where
  "spec_step_index i s =
     (if i < length (snd s)
      then let r = spring_step (springConstant (fst s)) (damping (fst s))
                     (snd s ! i) (velocities (fst s) ! i) (restPositions (fst s) ! i)
           in ((fst s)\<lparr>velocities := (velocities (fst s))[i := snd r]\<rparr>, (snd s)[i := fst r])
      else s)"

definition spec_step :: "world \<Rightarrow> world" where
  "spec_step s = spec_step_index 2 (spec_step_index 1 s)"

section \<open>Magnitudes\<close>

text \<open>
  The Euclidean length of a vector, computed as \<^verbatim>\<open>calculateNormalizedTangent\<close> computes
  it, and the displacement of control point \<open>i\<close> from its anchor.
\<close>

definition magnitude :: "point \<Rightarrow> real" where
  "magnitude v = sqrt (x v * x v + y v * y v)"

definition displacement :: "nat \<Rightarrow> world \<Rightarrow> point" where
  "displacement i s = vsub (snd s ! i) (restPositions (fst s) ! i)"

text \<open>
  The demo script's scenario: a fresh simulator, \<^verbatim>\<open>setupControlPoints\<close> on the demo
  curve, then one \<^verbatim>\<open>applyForceToPoint(1, 250, 80, controlPoints)\<close>.
\<close>

definition injected_world :: world where
  "injected_world =
     final (applyForceToPoint
              (setupControlPoints PhysicsSystem_constructor demo_controlPoints) 1 250 80
              demo_controlPoints)"

section \<open>The curve\<close>

text \<open>
  C1. With exactly four control points and any real \<open>t\<close>, \<open>calculatePoint\<close> returns the
  cubic Bernstein blend of the four points, with \<open>u = 1 - t\<close> and weights \<open>u\<^sup>3\<close>,
  \<open>3u\<^sup>2t\<close>, \<open>3ut\<^sup>2\<close>, \<open>t\<^sup>3\<close>, in each coordinate; at \<open>t = 0\<close> it returns the first
  control point and at \<open>t = 1\<close> the last one.
\<close>

theorem calculatePoint_bernstein:
  assumes "length (controlPoints b) = 4"
  shows "calculatePoint b t =
           Inr \<lparr>x = (1 - t) ^ 3 * x (controlPoints b ! 0)
                    + 3 * (1 - t)\<^sup>2 * t * x (controlPoints b ! 1)
                    + 3 * (1 - t) * t\<^sup>2 * x (controlPoints b ! 2)
                    + t ^ 3 * x (controlPoints b ! 3),
                y = (1 - t) ^ 3 * y (controlPoints b ! 0)
                    + 3 * (1 - t)\<^sup>2 * t * y (controlPoints b ! 1)
                    + 3 * (1 - t) * t\<^sup>2 * y (controlPoints b ! 2)
                    + t ^ 3 * y (controlPoints b ! 3)\<rparr>
         \<and> calculatePoint b 0 = Inr (controlPoints b ! 0)
         \<and> calculatePoint b 1 = Inr (controlPoints b ! 3)"
  using assms by (simp add: calculatePoint_def Let_def power2_eq_square power3_eq_cube)

theorem calculatePoint_bernstein_witness:
  "length (controlPoints demo_bezier) = 4
   \<and> calculatePoint demo_bezier (1 / 2) = Inr \<lparr>x = 250, y = 100\<rparr>
   \<and> calculatePoint demo_bezier 0 = Inr \<lparr>x = 100, y = 100\<rparr>
   \<and> calculatePoint demo_bezier 1 = Inr \<lparr>x = 400, y = 100\<rparr>"
  using calculatePoint_bernstein [of demo_bezier "1 / 2"]
  by (simp add: demo_bezier_def demo_controlPoints_def BezierCurve_constructor_def
      power2_eq_square power3_eq_cube)

text \<open>
  C2. With exactly four control points and any real \<open>t\<close>, \<open>calculateTangent\<close> returns
  \<open>3u\<^sup>2(P1 - P0) + 6ut(P2 - P1) + 3t\<^sup>2(P3 - P2)\<close>, and in each coordinate this value is the
  derivative at \<open>t\<close> of the function \<open>s \<mapsto> calculatePoint s\<close>.
\<close>

theorem calculateTangent_derivative:
  assumes "length (controlPoints b) = 4"
  shows "calculateTangent b t =
           Inr \<lparr>x = 3 * (1 - t)\<^sup>2 * (x (controlPoints b ! 1) - x (controlPoints b ! 0))
                    + 6 * (1 - t) * t * (x (controlPoints b ! 2) - x (controlPoints b ! 1))
                    + 3 * t\<^sup>2 * (x (controlPoints b ! 3) - x (controlPoints b ! 2)),
                y = 3 * (1 - t)\<^sup>2 * (y (controlPoints b ! 1) - y (controlPoints b ! 0))
                    + 6 * (1 - t) * t * (y (controlPoints b ! 2) - y (controlPoints b ! 1))
                    + 3 * t\<^sup>2 * (y (controlPoints b ! 3) - y (controlPoints b ! 2))\<rparr>
         \<and> ((\<lambda>s. x (projr (calculatePoint b s))) has_real_derivative
               x (projr (calculateTangent b t))) (at t)
         \<and> ((\<lambda>s. y (projr (calculatePoint b s))) has_real_derivative
               y (projr (calculateTangent b t))) (at t)"
proof (intro conjI)
  show "calculateTangent b t =
           Inr \<lparr>x = 3 * (1 - t)\<^sup>2 * (x (controlPoints b ! 1) - x (controlPoints b ! 0))
                    + 6 * (1 - t) * t * (x (controlPoints b ! 2) - x (controlPoints b ! 1))
                    + 3 * t\<^sup>2 * (x (controlPoints b ! 3) - x (controlPoints b ! 2)),
                y = 3 * (1 - t)\<^sup>2 * (y (controlPoints b ! 1) - y (controlPoints b ! 0))
                    + 6 * (1 - t) * t * (y (controlPoints b ! 2) - y (controlPoints b ! 1))
                    + 3 * t\<^sup>2 * (y (controlPoints b ! 3) - y (controlPoints b ! 2))\<rparr>"
    using assms by (simp add: calculateTangent_def Let_def power2_eq_square)
  show "((\<lambda>s. x (projr (calculatePoint b s))) has_real_derivative
               x (projr (calculateTangent b t))) (at t)"
    using assms unfolding calculatePoint_def calculateTangent_def Let_def
    by (auto intro!: derivative_eq_intros simp: algebra_simps)
  show "((\<lambda>s. y (projr (calculatePoint b s))) has_real_derivative
               y (projr (calculateTangent b t))) (at t)"
    using assms unfolding calculatePoint_def calculateTangent_def Let_def
    by (auto intro!: derivative_eq_intros simp: algebra_simps)
qed

theorem calculateTangent_derivative_witness:
  "length (controlPoints demo_bezier) = 4
   \<and> calculateTangent demo_bezier (1 / 2) = Inr \<lparr>x = 300, y = 75\<rparr>
   \<and> ((\<lambda>s. x (projr (calculatePoint demo_bezier s))) has_real_derivative 300) (at (1 / 2))
   \<and> ((\<lambda>s. y (projr (calculatePoint demo_bezier s))) has_real_derivative 75) (at (1 / 2))"
proof -
  have len: "length (controlPoints demo_bezier) = 4"
    by (simp add: demo_bezier_def demo_controlPoints_def)
  have val: "calculateTangent demo_bezier (1 / 2) = Inr \<lparr>x = 300, y = 75\<rparr>"
    using calculateTangent_derivative [OF len, of "1 / 2"]
    by (simp add: demo_bezier_def demo_controlPoints_def power2_eq_square)
  show ?thesis
    using calculateTangent_derivative [OF len, of "1 / 2"] len val by simp
qed

text \<open>
  C8. With exactly four control points, \<open>calculateNormalizedTangent\<close> returns a vector and
  never an error. The length of the raw tangent is zero exactly when the tangent is the
  zero vector, and then the result is \<open>(0, 0)\<close>; otherwise the result is the tangent
  divided by its length, and has length 1.
\<close>

theorem calculateNormalizedTangent_unit:
  assumes "length (controlPoints b) = 4"
  shows "\<exists>tangent n.
           calculateTangent b t = Inr tangent \<and> calculateNormalizedTangent b t = Inr n \<and>
           (sqrt ((x tangent)\<^sup>2 + (y tangent)\<^sup>2) = 0 \<longleftrightarrow> tangent = \<lparr>x = 0, y = 0\<rparr>) \<and>
           (tangent = \<lparr>x = 0, y = 0\<rparr> \<longrightarrow> n = \<lparr>x = 0, y = 0\<rparr>) \<and>
           (tangent \<noteq> \<lparr>x = 0, y = 0\<rparr> \<longrightarrow>
              n = \<lparr>x = x tangent / sqrt ((x tangent)\<^sup>2 + (y tangent)\<^sup>2),
                    y = y tangent / sqrt ((x tangent)\<^sup>2 + (y tangent)\<^sup>2)\<rparr> \<and>
              sqrt ((x n)\<^sup>2 + (y n)\<^sup>2) = 1)"
proof -
  obtain tangent where tg: "calculateTangent b t = Inr tangent"
    using assms by (simp add: calculateTangent_def Let_def)
  define l where "l = sqrt ((x tangent)\<^sup>2 + (y tangent)\<^sup>2)"
  have l0: "l = 0 \<longleftrightarrow> tangent = \<lparr>x = 0, y = 0\<rparr>"
    unfolding l_def by (cases tangent) simp
  have lnn: "0 \<le> l" unfolding l_def by simp
  show ?thesis
  proof (cases "tangent = \<lparr>x = 0, y = 0\<rparr>")
    case True
    then show ?thesis
      using tg by (simp add: calculateNormalizedTangent_def Let_def)
  next
    case False
    then have lpos: "l \<noteq> 0" using l0 by simp
    have n: "calculateNormalizedTangent b t = Inr \<lparr>x = x tangent / l, y = y tangent / l\<rparr>"
      using tg lpos by (simp add: calculateNormalizedTangent_def Let_def l_def power2_eq_square)
    have "(x tangent / l)\<^sup>2 + (y tangent / l)\<^sup>2 = ((x tangent)\<^sup>2 + (y tangent)\<^sup>2) / l\<^sup>2"
      by (simp add: power_divide add_divide_distrib)
    also have "l\<^sup>2 = (x tangent)\<^sup>2 + (y tangent)\<^sup>2"
      unfolding l_def by simp
    finally have "(x tangent / l)\<^sup>2 + (y tangent / l)\<^sup>2 = 1"
      using lpos l_def by simp
    then have unit: "sqrt ((x tangent / l)\<^sup>2 + (y tangent / l)\<^sup>2) = 1" by simp
    show ?thesis
      using tg n l0 False unit unfolding l_def by simp
  qed
qed


theorem calculateNormalizedTangent_unit_witness:
  "length (controlPoints straight_bezier) = 4
   \<and> calculateTangent straight_bezier (1 / 2) = Inr \<lparr>x = 1, y = 0\<rparr>
   \<and> calculateNormalizedTangent straight_bezier (1 / 2) = Inr \<lparr>x = 1, y = 0\<rparr>
   \<and> length (controlPoints stationary_bezier) = 4
   \<and> calculateTangent stationary_bezier (1 / 2) = Inr \<lparr>x = 0, y = 0\<rparr>
   \<and> calculateNormalizedTangent stationary_bezier (1 / 2) = Inr \<lparr>x = 0, y = 0\<rparr>"
proof -
  have l1: "length (controlPoints straight_bezier) = 4"
    by (simp add: straight_bezier_def)
  have l2: "length (controlPoints stationary_bezier) = 4"
    by (simp add: stationary_bezier_def)
  have t1: "calculateTangent straight_bezier (1 / 2) = Inr \<lparr>x = 1, y = 0\<rparr>"
    by (simp add: calculateTangent_def straight_bezier_def Let_def)
  have t2: "calculateTangent stationary_bezier (1 / 2) = Inr \<lparr>x = 0, y = 0\<rparr>"
    by (simp add: calculateTangent_def stationary_bezier_def Let_def)
  have n1: "calculateNormalizedTangent straight_bezier (1 / 2) = Inr \<lparr>x = 1, y = 0\<rparr>"
    using calculateNormalizedTangent_unit [OF l1, of "1 / 2"] t1 by auto
  have n2: "calculateNormalizedTangent stationary_bezier (1 / 2) = Inr \<lparr>x = 0, y = 0\<rparr>"
    using calculateNormalizedTangent_unit [OF l2, of "1 / 2"] t2 by auto
  show ?thesis using l1 l2 t1 t2 n1 n2 by simp
qed

section \<open>The simulator\<close>

lemma lookup_in: "i < length a \<Longrightarrow> lookup a i = Some (a ! i)"
  by (simp add: lookup_def)

lemma lookup_out: "\<not> i < length a \<Longrightarrow> lookup a i = None"
  by (simp add: lookup_def)

lemma lookup_list_update_other: "j \<noteq> i \<Longrightarrow> lookup (a[i := v]) j = lookup a j"
  by (simp add: lookup_def)

lemma update_loop_3: "update_loop 3 s = Returned s"
  by (subst update_loop.simps) simp

lemma update_loop_2: "update_loop 2 s = update_body 2 s"
  by (subst update_loop.simps) (simp add: update_loop_3 split: outcome.splits)

lemma update_unfold:
  "update ps cps =
     (case update_body 1 (ps, cps) of
        Threw e s' \<Rightarrow> Threw e s'
      | Returned s' \<Rightarrow> update_body 2 s')"
  unfolding update_def
  by (subst update_loop.simps) (simp add: update_loop_2 split: outcome.splits del: One_nat_def)

lemma update_body_skip: "length cps \<le> i \<Longrightarrow> update_body i (ps, cps) = Returned (ps, cps)"
  by (simp add: update_body.simps)

lemma update_body_spec:
  assumes "i < length cps" "i < length (velocities ps)" "i < length (restPositions ps)"
  shows "update_body i (ps, cps) = Returned (spec_step_index i (ps, cps))"
  using assms
  by (simp add: update_body.simps spec_step_index_def spring_step_def lookup_in Let_def
      vadd_def vsub_def smul_def algebra_simps)

lemma update_body_throws:
  assumes "i < length cps" "\<not> (i < length (velocities ps) \<and> i < length (restPositions ps))"
  shows "update_body i (ps, cps) = Threw TypeError (ps, cps)"
  using assms
  by (auto simp: update_body.simps lookup_def Let_def)

lemma spec_step_index_lengths:
  "length (snd (spec_step_index i s)) = length (snd s) \<and>
   length (velocities (fst (spec_step_index i s))) = length (velocities (fst s)) \<and>
   restPositions (fst (spec_step_index i s)) = restPositions (fst s)"
  by (simp add: spec_step_index_def Let_def)

lemma update_returns_spec_step:
  assumes "\<forall>i\<in>{1, 2}. i < length cps \<longrightarrow>
             i < length (velocities ps) \<and> i < length (restPositions ps)"
  shows "update ps cps = Returned (spec_step (ps, cps)) \<and>
         restPositions (fst (final (update ps cps))) = restPositions ps"
proof -
  have b1: "update_body 1 (ps, cps) = Returned (spec_step_index 1 (ps, cps))"
  proof (cases "1 < length cps")
    case True
    with assms show ?thesis by (simp add: update_body_spec)
  next
    case False
    then show ?thesis by (simp add: update_body_skip spec_step_index_def)
  qed
  obtain ps1 cps1 where s1: "spec_step_index 1 (ps, cps) = (ps1, cps1)"
    by (cases "spec_step_index 1 (ps, cps)")
  have len1: "length cps1 = length cps" "length (velocities ps1) = length (velocities ps)"
    "restPositions ps1 = restPositions ps"
    using spec_step_index_lengths [of 1 "(ps, cps)"] s1 by simp_all
  have b2: "update_body 2 (ps1, cps1) = Returned (spec_step_index 2 (ps1, cps1))"
  proof (cases "2 < length cps")
    case True
    with assms len1 show ?thesis by (simp add: update_body_spec)
  next
    case False
    with len1 show ?thesis by (simp add: update_body_skip spec_step_index_def)
  qed
  have u: "update ps cps = Returned (spec_step (ps, cps))"
    unfolding update_unfold spec_step_def b1 s1 by (simp add: b2)
  have "restPositions (fst (spec_step (ps, cps))) = restPositions ps"
    unfolding spec_step_def s1
    using spec_step_index_lengths [of 2 "(ps1, cps1)"] len1 by simp
  with u show ?thesis by simp
qed


text \<open>
  C3. When the simulator has a velocity and a rest position at each index of \<open>{1, 2}\<close>
  that lies inside the control point array, one call of \<open>update\<close> returns, and the state it
  leaves is the specification's step applied at index 1 and then at index 2: displacement
  from the anchor, velocity increased by \<open>- k d - c v\<close>, position increased by the new
  velocity, velocity multiplied by 0.995. The rest positions (anchors) are as before.
\<close>

theorem update_is_spec_step:
  assumes "\<forall>i\<in>{1, 2}. i < length cps \<longrightarrow>
             i < length (velocities ps) \<and> i < length (restPositions ps)"
  shows "update ps cps = Returned (spec_step (ps, cps)) \<and>
         restPositions (fst (final (update ps cps))) = restPositions ps"
  using assms by (rule update_returns_spec_step)

theorem update_is_spec_step_witness:
  "2 < length demo_controlPoints \<and> 2 < length (velocities displaced_physics)
   \<and> 2 < length (restPositions displaced_physics)
   \<and> update displaced_physics demo_controlPoints =
       Returned
         (displaced_physics
            \<lparr>velocities := [\<lparr>x = 0, y = 0\<rparr>, \<lparr>x = 0, y = 14.925\<rparr>, \<lparr>x = 0, y = 0\<rparr>,
                            \<lparr>x = 0, y = 0\<rparr>]\<rparr>,
          [\<lparr>x = 100, y = 100\<rparr>, \<lparr>x = 200, y = 65\<rparr>, \<lparr>x = 300, y = 150\<rparr>,
           \<lparr>x = 400, y = 100\<rparr>])"
proof -
  have h: "\<forall>i\<in>{1, 2}. i < length demo_controlPoints \<longrightarrow>
      i < length (velocities displaced_physics) \<and> i < length (restPositions displaced_physics)"
    by (simp add: demo_controlPoints_def displaced_physics_def)
  show ?thesis
    using update_is_spec_step [OF h]
    by (simp add: spec_step_def spec_step_index_def spring_step_def vadd_def vsub_def smul_def
        demo_controlPoints_def displaced_physics_def PhysicsSystem_constructor_def Let_def
        numeral_2_eq_2)
qed

lemma update_body_frame:
  "length (snd (final (update_body i s))) = length (snd s) \<and>
   length (velocities (fst (final (update_body i s)))) = length (velocities (fst s)) \<and>
   restPositions (fst (final (update_body i s))) = restPositions (fst s) \<and>
   (\<forall>j. j \<noteq> i \<longrightarrow> lookup (snd (final (update_body i s))) j = lookup (snd s) j) \<and>
   (\<forall>j. j \<noteq> i \<longrightarrow> lookup (velocities (fst (final (update_body i s)))) j
                      = lookup (velocities (fst s)) j)"
  by (cases s) (simp add: update_body.simps Let_def lookup_list_update_other split: option.splits)

lemma update_final:
  "final (update ps cps) =
     (case update_body 1 (ps, cps) of
        Threw e s' \<Rightarrow> s'
      | Returned s' \<Rightarrow> final (update_body 2 s'))"
  unfolding update_unfold by (simp split: outcome.splits)

lemma update_final_cases:
  "final (update ps cps) = final (update_body 1 (ps, cps)) \<or>
   final (update ps cps) = final (update_body 2 (final (update_body 1 (ps, cps))))"
  unfolding update_final by (cases "update_body 1 (ps, cps)") simp_all

lemma update_frame:
  assumes "j \<noteq> 1" "j \<noteq> 2"
  shows "lookup (snd (final (update ps cps))) j = lookup cps j"
proof -
  have a: "lookup (snd (final (update_body 1 (ps, cps)))) j = lookup cps j"
    using update_body_frame [of 1 "(ps, cps)"] assms by simp
  have b: "lookup (snd (final (update_body 2 (final (update_body 1 (ps, cps)))))) j
             = lookup (snd (final (update_body 1 (ps, cps)))) j"
    using update_body_frame [of 2 "final (update_body 1 (ps, cps))"] assms by simp
  from update_final_cases [of ps cps] a b show ?thesis by auto
qed

lemma update_length:
  "length (snd (final (update ps cps))) = length cps"
proof -
  have a: "length (snd (final (update_body 1 (ps, cps)))) = length cps"
    using update_body_frame [of 1 "(ps, cps)"] by simp
  have b: "length (snd (final (update_body 2 (final (update_body 1 (ps, cps))))))
             = length (snd (final (update_body 1 (ps, cps))))"
    using update_body_frame [of 2 "final (update_body 1 (ps, cps))"] by simp
  from update_final_cases [of ps cps] a b show ?thesis by auto
qed

lemma applyForceToPoint_frame:
  "snd (final (applyForceToPoint ps index tx ty cps)) = cps \<and>
   (\<forall>j. int j \<noteq> index \<longrightarrow>
      lookup (velocities (fst (final (applyForceToPoint ps index tx ty cps)))) j
        = lookup (velocities ps) j \<and>
      lookup (restPositions (fst (final (applyForceToPoint ps index tx ty cps)))) j
        = lookup (restPositions ps) j)"
  by (auto simp: applyForceToPoint_def Let_def lookup_list_update_other split: option.splits)

lemma update_body_fields:
  "fst (final (update_body i s)) =
     (fst s)\<lparr>velocities := velocities (fst (final (update_body i s)))\<rparr>"
  by (cases s) (simp add: update_body.simps Let_def split: option.splits)

lemma update_fields:
  "fst (final (update ps cps)) = ps\<lparr>velocities := velocities (fst (final (update ps cps)))\<rparr>"
proof -
  have a: "fst (final (update_body 1 (ps, cps)))
             = ps\<lparr>velocities := velocities (fst (final (update_body 1 (ps, cps))))\<rparr>"
    using update_body_fields [of 1 "(ps, cps)"] by simp
  have b: "fst (final (update_body 2 (final (update_body 1 (ps, cps)))))
             = (fst (final (update_body 1 (ps, cps))))
                 \<lparr>velocities :=
                    velocities (fst (final (update_body 2 (final (update_body 1 (ps, cps))))))\<rparr>"
    by (rule update_body_fields)
  have c: "fst (final (update_body 2 (final (update_body 1 (ps, cps)))))
             = ps\<lparr>velocities :=
                    velocities (fst (final (update_body 2 (final (update_body 1 (ps, cps))))))\<rparr>"
    by (subst b, subst a) simp
  from update_final_cases [of ps cps] show ?thesis
  proof
    assume "final (update ps cps) = final (update_body 1 (ps, cps))"
    then show ?thesis using a by simp
  next
    assume "final (update ps cps) = final (update_body 2 (final (update_body 1 (ps, cps))))"
    then show ?thesis using c by simp
  qed
qed

lemma update_velocities_frame:
  assumes "j \<noteq> 1" "j \<noteq> 2"
  shows "lookup (velocities (fst (final (update ps cps)))) j = lookup (velocities ps) j"
proof -
  have a: "lookup (velocities (fst (final (update_body 1 (ps, cps))))) j = lookup (velocities ps) j"
    using update_body_frame [of 1 "(ps, cps)"] assms by simp
  have b: "lookup (velocities (fst (final (update_body 2 (final (update_body 1 (ps, cps))))))) j
             = lookup (velocities (fst (final (update_body 1 (ps, cps))))) j"
    using update_body_frame [of 2 "final (update_body 1 (ps, cps))"] assms by simp
  from update_final_cases [of ps cps] a b show ?thesis by auto
qed

lemma applyForceToPoint_fields:
  "fst (final (applyForceToPoint ps index tx ty cps)) =
     ps\<lparr>velocities := velocities (fst (final (applyForceToPoint ps index tx ty cps))),
        restPositions := restPositions (fst (final (applyForceToPoint ps index tx ty cps)))\<rparr>"
  by (simp add: applyForceToPoint_def Let_def split: option.splits)

lemma resetPoint_fields:
  "resetPoint ps index = ps\<lparr>velocities := velocities (resetPoint ps index)\<rparr>"
  by (simp add: resetPoint_def)

lemma applyForceToPoint_lengths:
  "length (velocities (fst (final (applyForceToPoint ps index tx ty cps))))
     = length (velocities ps)"
  "length (restPositions (fst (final (applyForceToPoint ps index tx ty cps))))
     = length (restPositions ps)"
  by (simp_all add: applyForceToPoint_def Let_def split: option.splits)

lemma update_velocities_length:
  "length (velocities (fst (final (update ps cps)))) = length (velocities ps)"
proof -
  have a: "length (velocities (fst (final (update_body 1 (ps, cps))))) = length (velocities ps)"
    using update_body_frame [of 1 "(ps, cps)"] by simp
  have b: "length (velocities (fst (final (update_body 2 (final (update_body 1 (ps, cps)))))))
             = length (velocities (fst (final (update_body 1 (ps, cps)))))"
    using update_body_frame [of 2 "final (update_body 1 (ps, cps))"] by simp
  from update_final_cases [of ps cps] a b show ?thesis by auto
qed

lemma resetPoint_length:
  "length (velocities (resetPoint ps index)) = length (velocities ps)"
  by (simp add: resetPoint_def)

text \<open>
  C4. No operation of the simulator writes a control point other than those at indices 1
  and 2. After \<open>update\<close>, whether it returned or threw, the array has its old length and
  every slot other than 1 and 2, so slots 0 and 3, holds what it held; of the simulator,
  \<open>update\<close> changes the velocities only, and none outside indices 1 and 2.
  \<open>applyForceToPoint\<close> leaves the whole array as it was; of the simulator it changes the
  velocities and the rest positions only (the spring constant, the damping and the mouse
  influence are as before), and of those none other than the ones of its index.
  \<open>resetPoint\<close> is not handed the array; it changes the velocities only, and none other
  than that of its index.
\<close>

theorem fixed_points_never_written:
  "lookup (snd (final (update ps cps))) 0 = lookup cps 0
   \<and> lookup (snd (final (update ps cps))) 3 = lookup cps 3
   \<and> (\<forall>j. j \<noteq> 1 \<and> j \<noteq> 2 \<longrightarrow> lookup (snd (final (update ps cps))) j = lookup cps j)
   \<and> length (snd (final (update ps cps))) = length cps
   \<and> snd (final (applyForceToPoint ps index tx ty cps)) = cps
   \<and> (\<forall>j. int j \<noteq> index \<longrightarrow>
        lookup (velocities (fst (final (applyForceToPoint ps index tx ty cps)))) j
          = lookup (velocities ps) j \<and>
        lookup (restPositions (fst (final (applyForceToPoint ps index tx ty cps)))) j
          = lookup (restPositions ps) j)
   \<and> restPositions (resetPoint ps index) = restPositions ps
   \<and> (\<forall>j. int j \<noteq> index \<longrightarrow>
        lookup (velocities (resetPoint ps index)) j = lookup (velocities ps) j)
   \<and> fst (final (applyForceToPoint ps index tx ty cps)) =
        ps\<lparr>velocities := velocities (fst (final (applyForceToPoint ps index tx ty cps))),
           restPositions := restPositions (fst (final (applyForceToPoint ps index tx ty cps)))\<rparr>
   \<and> springConstant (fst (final (applyForceToPoint ps index tx ty cps))) = springConstant ps
   \<and> damping (fst (final (applyForceToPoint ps index tx ty cps))) = damping ps
   \<and> mouseInfluence (fst (final (applyForceToPoint ps index tx ty cps))) = mouseInfluence ps
   \<and> length (velocities (fst (final (applyForceToPoint ps index tx ty cps))))
        = length (velocities ps)
   \<and> length (restPositions (fst (final (applyForceToPoint ps index tx ty cps))))
        = length (restPositions ps)
   \<and> fst (final (update ps cps)) = ps\<lparr>velocities := velocities (fst (final (update ps cps)))\<rparr>
   \<and> (\<forall>j. j \<noteq> 1 \<and> j \<noteq> 2 \<longrightarrow>
        lookup (velocities (fst (final (update ps cps)))) j = lookup (velocities ps) j)
   \<and> length (velocities (fst (final (update ps cps)))) = length (velocities ps)
   \<and> resetPoint ps index = ps\<lparr>velocities := velocities (resetPoint ps index)\<rparr>
   \<and> length (velocities (resetPoint ps index)) = length (velocities ps)"
proof -
  have r: "restPositions (resetPoint ps index) = restPositions ps
     \<and> (\<forall>j. int j \<noteq> index \<longrightarrow>
        lookup (velocities (resetPoint ps index)) j = lookup (velocities ps) j)"
    by (auto simp: resetPoint_def lookup_list_update_other)
  have old: "lookup (snd (final (update ps cps))) 0 = lookup cps 0
   \<and> lookup (snd (final (update ps cps))) 3 = lookup cps 3
   \<and> (\<forall>j. j \<noteq> 1 \<and> j \<noteq> 2 \<longrightarrow> lookup (snd (final (update ps cps))) j = lookup cps j)
   \<and> length (snd (final (update ps cps))) = length cps
   \<and> snd (final (applyForceToPoint ps index tx ty cps)) = cps
   \<and> (\<forall>j. int j \<noteq> index \<longrightarrow>
        lookup (velocities (fst (final (applyForceToPoint ps index tx ty cps)))) j
          = lookup (velocities ps) j \<and>
        lookup (restPositions (fst (final (applyForceToPoint ps index tx ty cps)))) j
          = lookup (restPositions ps) j)
   \<and> restPositions (resetPoint ps index) = restPositions ps
   \<and> (\<forall>j. int j \<noteq> index \<longrightarrow>
        lookup (velocities (resetPoint ps index)) j = lookup (velocities ps) j)"
    using update_frame [of _ ps cps] update_length [of ps cps]
      applyForceToPoint_frame [of ps index tx ty cps] r
    by simp
  have af: "springConstant (fst (final (applyForceToPoint ps index tx ty cps))) = springConstant ps"
    "damping (fst (final (applyForceToPoint ps index tx ty cps))) = damping ps"
    "mouseInfluence (fst (final (applyForceToPoint ps index tx ty cps))) = mouseInfluence ps"
    by (subst applyForceToPoint_fields, simp)+
  have uv: "\<forall>j. j \<noteq> 1 \<and> j \<noteq> 2 \<longrightarrow>
        lookup (velocities (fst (final (update ps cps)))) j = lookup (velocities ps) j"
    using update_velocities_frame [of _ ps cps] by blast
  note new = applyForceToPoint_fields [of ps index tx ty cps] af
    applyForceToPoint_lengths [of ps index tx ty cps]
    update_fields [of ps cps] uv update_velocities_length [of ps cps]
    resetPoint_fields [of ps index] resetPoint_length [of ps index]
  from old new show ?thesis by blast
qed

theorem fixed_points_never_written_witness:
  "lookup (snd (final (update displaced_physics demo_controlPoints))) 0
     = Some \<lparr>x = 100, y = 100\<rparr>
   \<and> lookup (snd (final (update displaced_physics demo_controlPoints))) 3
     = Some \<lparr>x = 400, y = 100\<rparr>
   \<and> snd (final (applyForceToPoint displaced_physics 1 250 80 demo_controlPoints))
     = demo_controlPoints
   \<and> lookup (restPositions (fst (final
         (applyForceToPoint displaced_physics 1 250 80 demo_controlPoints)))) 2
     = Some \<lparr>x = 300, y = 150\<rparr>
   \<and> restPositions (resetPoint displaced_physics 1) = restPositions displaced_physics
   \<and> springConstant (fst (final
         (applyForceToPoint displaced_physics 1 250 80 demo_controlPoints))) = 0.15
   \<and> damping (fst (final
         (applyForceToPoint displaced_physics 1 250 80 demo_controlPoints))) = 0.88
   \<and> mouseInfluence (fst (final
         (applyForceToPoint displaced_physics 1 250 80 demo_controlPoints))) = 0.8"
proof -
  note T = fixed_points_never_written [of displaced_physics demo_controlPoints 1 250 80]
  have dflt: "springConstant displaced_physics = 0.15" "damping displaced_physics = 0.88"
    "mouseInfluence displaced_physics = 0.8"
    by (simp_all add: displaced_physics_def PhysicsSystem_constructor_def)
  from T have f: "springConstant (fst (final
         (applyForceToPoint displaced_physics 1 250 80 demo_controlPoints)))
           = springConstant displaced_physics"
    and g: "damping (fst (final
         (applyForceToPoint displaced_physics 1 250 80 demo_controlPoints)))
           = damping displaced_physics"
    and h: "mouseInfluence (fst (final
         (applyForceToPoint displaced_physics 1 250 80 demo_controlPoints)))
           = mouseInfluence displaced_physics"
    by blast+
  have vals: "lookup demo_controlPoints 0 = Some \<lparr>x = 100, y = 100\<rparr>"
    "lookup demo_controlPoints 3 = Some \<lparr>x = 400, y = 100\<rparr>"
    "lookup (restPositions displaced_physics) 2 = Some \<lparr>x = 300, y = 150\<rparr>"
    by (simp_all add: lookup_def demo_controlPoints_def displaced_physics_def)
  from T have a: "lookup (snd (final (update displaced_physics demo_controlPoints))) 0
                    = lookup demo_controlPoints 0"
    and b: "lookup (snd (final (update displaced_physics demo_controlPoints))) 3
                    = lookup demo_controlPoints 3"
    and c: "snd (final (applyForceToPoint displaced_physics 1 250 80 demo_controlPoints))
              = demo_controlPoints"
    and d: "\<forall>j. int j \<noteq> 1 \<longrightarrow>
        lookup (velocities (fst (final
          (applyForceToPoint displaced_physics 1 250 80 demo_controlPoints)))) j
          = lookup (velocities displaced_physics) j \<and>
        lookup (restPositions (fst (final
          (applyForceToPoint displaced_physics 1 250 80 demo_controlPoints)))) j
          = lookup (restPositions displaced_physics) j"
    and e: "restPositions (resetPoint displaced_physics 1) = restPositions displaced_physics"
    by blast+
  from d have d2: "lookup (restPositions (fst (final
          (applyForceToPoint displaced_physics 1 250 80 demo_controlPoints)))) 2
          = lookup (restPositions displaced_physics) 2"
    by simp
  show ?thesis
    unfolding a b c d2 e f g h vals dflt by simp
qed

text \<open>
  C7. For an index outside \<open>{1, 2}\<close>, or at or beyond the length of the control point
  array, \<open>applyForceToPoint\<close> returns without a throw and leaves the simulator (every
  velocity and rest position) and the control points as they were.
\<close>

theorem applyForceToPoint_ignores_bad_index:
  assumes "index \<notin> {1, 2} \<or> index \<ge> int (length cps)"
  shows "applyForceToPoint ps index tx ty cps = Returned (ps, cps)"
  using assms by (auto simp: applyForceToPoint_def)

theorem applyForceToPoint_ignores_bad_index_witness:
  "(5::int) \<notin> {1, 2}
   \<and> applyForceToPoint displaced_physics 5 250 80 demo_controlPoints
       = Returned (displaced_physics, demo_controlPoints)
   \<and> (0::int) \<notin> {1, 2}
   \<and> applyForceToPoint displaced_physics 0 250 80 demo_controlPoints
       = Returned (displaced_physics, demo_controlPoints)
   \<and> (2::int) \<ge> int (length [\<lparr>x = 0, y = 0\<rparr>, \<lparr>x = 1, y = 1\<rparr>])
   \<and> applyForceToPoint displaced_physics 2 250 80 [\<lparr>x = 0, y = 0\<rparr>, \<lparr>x = 1, y = 1\<rparr>]
       = Returned (displaced_physics, [\<lparr>x = 0, y = 0\<rparr>, \<lparr>x = 1, y = 1\<rparr>])"
  using applyForceToPoint_ignores_bad_index [of 5 demo_controlPoints displaced_physics 250 80]
    applyForceToPoint_ignores_bad_index [of 0 demo_controlPoints displaced_physics 250 80]
    applyForceToPoint_ignores_bad_index
      [of 2 "[\<lparr>x = 0, y = 0\<rparr>, \<lparr>x = 1, y = 1\<rparr>]" displaced_physics 250 80]
  by simp

lemma sqrt_scaled: "sqrt ((r * a)\<^sup>2 + (r * b)\<^sup>2) = \<bar>r\<bar> * sqrt (a\<^sup>2 + b\<^sup>2)"
proof -
  have "(r * a)\<^sup>2 + (r * b)\<^sup>2 = r\<^sup>2 * (a\<^sup>2 + b\<^sup>2)"
    by (simp add: power_mult_distrib distrib_left)
  then show ?thesis by (simp add: real_sqrt_mult)
qed

lemma distance_pos: "p \<noteq> q \<Longrightarrow> 0 < distance p q"
proof -
  assume "p \<noteq> q"
  then have "x p \<noteq> x q \<or> y p \<noteq> y q" by (cases p, cases q) auto
  then have "0 < (x p - x q)\<^sup>2 + (y p - y q)\<^sup>2"
    by (auto simp: sum_power2_gt_zero_iff)
  then show ?thesis by (simp add: distance_def)
qed

lemma distance_toward:
  assumes "a1 = \<lparr>x = x a + (x t - x a) * m, y = y a + (y t - y a) * m\<rparr>"
  shows "distance a1 t = \<bar>1 - m\<bar> * distance a t" and "distance a a1 = \<bar>m\<bar> * distance a t"
proof -
  have "x a1 - x t = (1 - m) * (x a - x t)" "y a1 - y t = (1 - m) * (y a - y t)"
    using assms by (simp_all add: algebra_simps)
  then show "distance a1 t = \<bar>1 - m\<bar> * distance a t"
    by (simp add: distance_def sqrt_scaled)
  have "x a - x a1 = m * (x a - x t)" "y a - y a1 = m * (y a - y t)"
    using assms by (simp_all add: algebra_simps)
  then show "distance a a1 = \<bar>m\<bar> * distance a t"
    by (simp add: distance_def sqrt_scaled)
qed

text \<open>
  C5. For an index in \<open>{1, 2}\<close> inside the control point array, at which the simulator
  has a rest position and a velocity, one call of \<open>applyForceToPoint\<close> returns, moves the
  anchor \<open>a\<close> to \<open>a + influence (target - a)\<close> and adds \<open>0.1 (target - controlPoints[i])\<close>
  to the velocity. When the influence lies strictly between 0 and 1 and the anchor was not
  at the target, the new anchor is strictly closer to the target, the vector left to the
  target is the old one scaled by \<open>1 - influence > 0\<close>, and the new anchor lies on the
  segment from the old anchor to the target (the two distances add up): no overshoot.
\<close>

theorem applyForceToPoint_leash:
  assumes "index = 1 \<or> index = 2" and "index < int (length cps)"
    and "nat index < length (restPositions ps)" and "nat index < length (velocities ps)"
  shows "\<exists>ps'. applyForceToPoint ps index tx ty cps = Returned (ps', cps) \<and>
           restPositions ps' ! nat index =
             \<lparr>x = x (restPositions ps ! nat index)
                    + mouseInfluence ps * (tx - x (restPositions ps ! nat index)),
              y = y (restPositions ps ! nat index)
                    + mouseInfluence ps * (ty - y (restPositions ps ! nat index))\<rparr> \<and>
           velocities ps' ! nat index =
             \<lparr>x = x (velocities ps ! nat index) + 0.1 * (tx - x (cps ! nat index)),
              y = y (velocities ps ! nat index) + 0.1 * (ty - y (cps ! nat index))\<rparr> \<and>
           (0 < mouseInfluence ps \<and> mouseInfluence ps < 1 \<and>
            restPositions ps ! nat index \<noteq> \<lparr>x = tx, y = ty\<rparr> \<longrightarrow>
              distance (restPositions ps' ! nat index) \<lparr>x = tx, y = ty\<rparr>
                < distance (restPositions ps ! nat index) \<lparr>x = tx, y = ty\<rparr> \<and>
              vsub \<lparr>x = tx, y = ty\<rparr> (restPositions ps' ! nat index)
                = smul (1 - mouseInfluence ps) (vsub \<lparr>x = tx, y = ty\<rparr> (restPositions ps ! nat index)) \<and>
              distance (restPositions ps ! nat index) (restPositions ps' ! nat index)
                + distance (restPositions ps' ! nat index) \<lparr>x = tx, y = ty\<rparr>
                = distance (restPositions ps ! nat index) \<lparr>x = tx, y = ty\<rparr>)"
proof -
  define i where "i = nat index"
  define a where "a = restPositions ps ! i"
  define m where "m = mouseInfluence ps"
  define t where "t = \<lparr>x = tx, y = ty\<rparr>"
  define a1 where "a1 = \<lparr>x = x a + (x t - x a) * m, y = y a + (y t - y a) * m\<rparr>"
  define v1 where "v1 = \<lparr>x = x (velocities ps ! i) + (tx - x (cps ! i)) * 0.1,
                          y = y (velocities ps ! i) + (ty - y (cps ! i)) * 0.1\<rparr>"
  define ps' where "ps' = ps\<lparr>restPositions := (restPositions ps)[i := a1],
                               velocities := (velocities ps)[i := v1]\<rparr>"
  have guard: "\<not> (index < 1 \<or> index > 2 \<or> index \<ge> int (length cps))"
    using assms by auto
  have il: "i < length (restPositions ps)" "i < length (velocities ps)"
    using assms by (simp_all add: i_def)
  have ret: "applyForceToPoint ps index tx ty cps = Returned (ps', cps)"
    using guard il
    by (simp add: applyForceToPoint_def Let_def lookup_in ps'_def a1_def v1_def a_def m_def
        t_def i_def)
  have ra: "restPositions ps' ! i = a1" using il by (simp add: ps'_def)
  have rv: "velocities ps' ! i = v1" using il by (simp add: ps'_def)
  have d1: "distance a1 t = \<bar>1 - m\<bar> * distance a t"
    and d2: "distance a a1 = \<bar>m\<bar> * distance a t"
    using distance_toward [OF a1_def] by simp_all
  have closer: "distance a1 t < distance a t \<and>
      vsub t a1 = smul (1 - m) (vsub t a) \<and>
      distance a a1 + distance a1 t = distance a t"
    if "0 < m" "m < 1" "a \<noteq> t"
  proof -
    have pos: "0 < distance a t" using that distance_pos by simp
    have "distance a1 t = (1 - m) * distance a t" using d1 that by simp
    moreover have "(1 - m) * distance a t < 1 * distance a t"
      using that pos by (intro mult_strict_right_mono) simp_all
    ultimately have c1: "distance a1 t < distance a t" by simp
    have c2: "vsub t a1 = smul (1 - m) (vsub t a)"
      by (simp add: vsub_def smul_def a1_def algebra_simps)
    have c3: "distance a a1 + distance a1 t = distance a t"
      using d1 d2 that by (simp add: algebra_simps)
    from c1 c2 c3 show ?thesis by simp
  qed
  have "restPositions ps' ! i = \<lparr>x = x a + m * (tx - x a), y = y a + m * (ty - y a)\<rparr>"
    using ra by (simp add: a1_def t_def algebra_simps)
  moreover have "velocities ps' ! i =
             \<lparr>x = x (velocities ps ! i) + 0.1 * (tx - x (cps ! i)),
              y = y (velocities ps ! i) + 0.1 * (ty - y (cps ! i))\<rparr>"
    using rv by (simp add: v1_def algebra_simps)
  ultimately show ?thesis
    using ret closer ra unfolding i_def [symmetric] a_def [symmetric] m_def [symmetric]
      t_def [symmetric]
    by (intro exI [of _ ps']) simp
qed

theorem applyForceToPoint_leash_witness:
  "(1::int) < int (length demo_controlPoints)
   \<and> 1 < length (restPositions displaced_physics)
   \<and> 1 < length (velocities displaced_physics)
   \<and> 0 < mouseInfluence displaced_physics \<and> mouseInfluence displaced_physics < 1
   \<and> restPositions displaced_physics ! 1 \<noteq> \<lparr>x = 250, y = 80\<rparr>
   \<and> (\<exists>ps'. applyForceToPoint displaced_physics 1 250 80 demo_controlPoints
               = Returned (ps', demo_controlPoints)
            \<and> restPositions ps' ! 1 = \<lparr>x = 240, y = 94\<rparr>
            \<and> velocities ps' ! 1 = \<lparr>x = 5, y = 3\<rparr>
            \<and> distance (restPositions ps' ! 1) \<lparr>x = 250, y = 80\<rparr>
                < distance (restPositions displaced_physics ! 1) \<lparr>x = 250, y = 80\<rparr>)"
proof -
  have h1: "(1::int) = 1 \<or> (1::int) = 2" by simp
  have h2: "(1::int) < int (length demo_controlPoints)"
    by (simp add: demo_controlPoints_def)
  have h3: "nat 1 < length (restPositions displaced_physics)"
    by (simp add: displaced_physics_def)
  have h4: "nat 1 < length (velocities displaced_physics)"
    by (simp add: displaced_physics_def)
  have m: "0 < mouseInfluence displaced_physics \<and> mouseInfluence displaced_physics < 1"
    by (simp add: displaced_physics_def PhysicsSystem_constructor_def)
  have ne: "restPositions displaced_physics ! 1 \<noteq> \<lparr>x = 250, y = 80\<rparr>"
    by (simp add: displaced_physics_def)
  have vals: "restPositions displaced_physics ! Suc 0 = \<lparr>x = 200, y = 150\<rparr>"
    "velocities displaced_physics ! Suc 0 = \<lparr>x = 0, y = 0\<rparr>"
    "demo_controlPoints ! Suc 0 = \<lparr>x = 200, y = 50\<rparr>"
    "mouseInfluence displaced_physics = 0.8"
    by (simp_all add: displaced_physics_def demo_controlPoints_def PhysicsSystem_constructor_def)
  from applyForceToPoint_leash [OF h1 h2 h3 h4, of 250 80] m ne
  obtain ps' where
    r: "applyForceToPoint displaced_physics 1 250 80 demo_controlPoints
          = Returned (ps', demo_controlPoints)"
    and a: "restPositions ps' ! 1 = \<lparr>x = 240, y = 94\<rparr>"
    and v: "velocities ps' ! 1 = \<lparr>x = 5, y = 3\<rparr>"
    and d: "distance (restPositions ps' ! 1) \<lparr>x = 250, y = 80\<rparr>
              < distance (restPositions displaced_physics ! 1) \<lparr>x = 250, y = 80\<rparr>"
    by (auto simp: vals)
  then show ?thesis using h2 h3 h4 m ne by auto
qed

lemma setup_loop_velocities:
  "velocities (setup_loop i cps ps) = velocities ps @ replicate (length cps - i) \<lparr>x = 0, y = 0\<rparr>"
proof (induction i cps ps rule: setup_loop.induct)
  case (1 i cps ps)
  show ?case
  proof (cases "i < length cps")
    case True
    then have "length cps - i = Suc (length cps - (i + 1))" by simp
    with True 1 show ?thesis
      by (subst setup_loop.simps) (simp add: replicate_append_same flip: replicate_Suc)
  next
    case False
    then show ?thesis by (subst setup_loop.simps) simp
  qed
qed

lemma setup_loop_restPositions:
  "restPositions (setup_loop i cps ps) = restPositions ps @ drop i cps"
proof (induction i cps ps rule: setup_loop.induct)
  case (1 i cps ps)
  show ?case
  proof (cases "i < length cps")
    case True
    with 1 show ?thesis
      by (subst setup_loop.simps) (simp add: Cons_nth_drop_Suc)
  next
    case False
    then show ?thesis by (subst setup_loop.simps) simp
  qed
qed

lemma setupControlPoints_arrays:
  "velocities (setupControlPoints ps cps) = replicate (length cps) \<lparr>x = 0, y = 0\<rparr>"
  "restPositions (setupControlPoints ps cps) = cps"
  by (simp_all add: setupControlPoints_def setup_loop_velocities setup_loop_restPositions)

lemma update_body_returns_iff:
  "returns (update_body i (ps, cps)) \<longleftrightarrow>
     (i < length cps \<longrightarrow> i < length (velocities ps) \<and> i < length (restPositions ps))"
  by (simp add: update_body.simps lookup_def Let_def)

lemma update_body_error:
  "\<not> returns (update_body i s) \<Longrightarrow> update_body i s = Threw TypeError s"
  by (cases s) (simp add: update_body.simps lookup_def Let_def split: if_splits)

lemma update_returns_iff:
  "returns (update ps cps) \<longleftrightarrow>
     (\<forall>i\<in>{1, 2}. i < length cps \<longrightarrow>
        i < length (velocities ps) \<and> i < length (restPositions ps))"
proof (cases "update_body 1 (ps, cps)")
  case (Returned s1)
  obtain ps1 cps1 where s1: "s1 = (ps1, cps1)" by (cases s1)
  have r1: "returns (update_body 1 (ps, cps))" using Returned by simp
  have same: "length cps1 = length cps" "length (velocities ps1) = length (velocities ps)"
    "restPositions ps1 = restPositions ps"
    using update_body_frame [of 1 "(ps, cps)"] Returned s1 by simp_all
  have "returns (update ps cps) = returns (update_body 2 (ps1, cps1))"
    unfolding update_unfold Returned s1 by simp
  then show ?thesis
    using r1 same unfolding update_body_returns_iff by auto
next
  case (Threw e s1)
  have r1: "\<not> returns (update_body 1 (ps, cps))" using Threw by simp
  have "\<not> returns (update ps cps)"
    unfolding update_unfold Threw by simp
  then show ?thesis
    using r1 unfolding update_body_returns_iff by auto
qed

lemma update_error:
  assumes "\<not> returns (update ps cps)"
  shows "\<exists>s. update ps cps = Threw TypeError s"
proof (cases "update_body 1 (ps, cps)")
  case (Returned s1)
  then have u: "update ps cps = update_body 2 s1"
    unfolding update_unfold by simp
  with assms have "update_body 2 s1 = Threw TypeError s1"
    by (simp add: update_body_error)
  with u show ?thesis by simp
next
  case (Threw e s1)
  then have "\<not> returns (update_body 1 (ps, cps))" by simp
  then have "update_body 1 (ps, cps) = Threw TypeError (ps, cps)"
    by (rule update_body_error)
  then show ?thesis unfolding update_unfold by simp
qed

lemma applyForceToPoint_returns_iff:
  assumes "i = 1 \<or> i = 2" "i < length cps"
  shows "returns (applyForceToPoint ps (int i) tx ty cps) \<longleftrightarrow>
           i < length (velocities ps) \<and> i < length (restPositions ps)"
  using assms by (auto simp: applyForceToPoint_def lookup_def Let_def)

lemma applyForceToPoint_error:
  "\<not> returns (applyForceToPoint ps index tx ty cps) \<Longrightarrow>
     \<exists>s. applyForceToPoint ps index tx ty cps = Threw TypeError s"
  by (auto simp: applyForceToPoint_def lookup_def Let_def split: if_splits)

text \<open>
  C10. The guards of \<open>update\<close> and \<open>applyForceToPoint\<close> look at the length of the control
  point array only. \<open>update\<close> returns exactly when the simulator has a velocity and a rest
  position at each index of \<open>{1, 2}\<close> inside that array, and \<open>applyForceToPoint\<close> at such
  an index returns exactly when it has them at that index; otherwise they throw a TypeError,
  reading a property of an entry that does not exist. After \<open>setupControlPoints\<close> on an
  array \<open>cps0\<close> this means that the index is inside \<open>cps0\<close>; on a freshly constructed
  simulator both throw as soon as the array has a slot 1.
\<close>

theorem guards_ignore_simulator_arrays:
  "(returns (update ps cps) \<longleftrightarrow>
      (\<forall>i\<in>{1, 2}. i < length cps \<longrightarrow>
         i < length (velocities ps) \<and> i < length (restPositions ps)))
   \<and> (\<forall>i\<in>{1, 2}. i < length cps \<longrightarrow>
        (returns (applyForceToPoint ps (int i) tx ty cps) \<longleftrightarrow>
           i < length (velocities ps) \<and> i < length (restPositions ps)))
   \<and> (\<not> returns (update ps cps) \<longrightarrow> (\<exists>s. update ps cps = Threw TypeError s))
   \<and> (\<not> returns (applyForceToPoint ps index tx ty cps) \<longrightarrow>
        (\<exists>s. applyForceToPoint ps index tx ty cps = Threw TypeError s))
   \<and> (returns (update (setupControlPoints ps cps0) cps) \<longleftrightarrow>
        (\<forall>i\<in>{1, 2}. i < length cps \<longrightarrow> i < length cps0))
   \<and> (\<forall>i\<in>{1, 2}. i < length cps \<longrightarrow>
        (returns (applyForceToPoint (setupControlPoints ps cps0) (int i) tx ty cps) \<longleftrightarrow>
           i < length cps0))
   \<and> (1 < length cps \<longrightarrow>
        \<not> returns (update PhysicsSystem_constructor cps) \<and>
        \<not> returns (applyForceToPoint PhysicsSystem_constructor 1 tx ty cps))"
proof -
  have a: "\<forall>i\<in>{1, 2}. i < length cps \<longrightarrow>
        (returns (applyForceToPoint ps (int i) tx ty cps) \<longleftrightarrow>
           i < length (velocities ps) \<and> i < length (restPositions ps))" for ps
    using applyForceToPoint_returns_iff [of _ cps ps tx ty] by blast
  have c: "1 < length cps \<longrightarrow>
        \<not> returns (update PhysicsSystem_constructor cps) \<and>
        \<not> returns (applyForceToPoint PhysicsSystem_constructor 1 tx ty cps)"
    using applyForceToPoint_returns_iff [of 1 cps PhysicsSystem_constructor tx ty]
    by (auto simp: update_returns_iff PhysicsSystem_constructor_def)
  show ?thesis
    using a [of ps] a [of "setupControlPoints ps cps0"] c
      update_error [of ps cps] applyForceToPoint_error [of ps index tx ty cps]
    by (simp add: update_returns_iff setupControlPoints_arrays)
qed

theorem guards_ignore_simulator_arrays_witness:
  "1 < length demo_controlPoints
   \<and> \<not> returns (update PhysicsSystem_constructor demo_controlPoints)
   \<and> (\<exists>s. update PhysicsSystem_constructor demo_controlPoints = Threw TypeError s)
   \<and> \<not> returns (applyForceToPoint PhysicsSystem_constructor 1 250 80 demo_controlPoints)
   \<and> (\<exists>s. applyForceToPoint PhysicsSystem_constructor 1 250 80 demo_controlPoints
            = Threw TypeError s)
   \<and> returns (update (setupControlPoints PhysicsSystem_constructor demo_controlPoints)
                demo_controlPoints)
   \<and> returns (applyForceToPoint
                (setupControlPoints PhysicsSystem_constructor demo_controlPoints) 1 250 80
                demo_controlPoints)"
proof -
  have l: "1 < length demo_controlPoints" "length demo_controlPoints = 4"
    by (simp_all add: demo_controlPoints_def)
  show ?thesis
    using guards_ignore_simulator_arrays
      [of PhysicsSystem_constructor demo_controlPoints 250 80 1 demo_controlPoints] l
    by auto
qed

lemma update_body_rest:
  assumes "i < length cps \<longrightarrow> i < length (velocities ps) \<and> i < length (restPositions ps) \<and>
             velocities ps ! i = \<lparr>x = 0, y = 0\<rparr> \<and> restPositions ps ! i = cps ! i"
  shows "update_body i (ps, cps) = Returned (ps, cps)"
proof (cases "i < length cps")
  case True
  with assms show ?thesis
    by (simp add: update_body.simps lookup_in Let_def list_update_same_conv)
next
  case False
  then show ?thesis by (simp add: update_body_skip)
qed

lemma update_at_rest:
  "update (setupControlPoints ps cps) cps = Returned (setupControlPoints ps cps, cps)"
  unfolding update_unfold
  by (simp add: update_body_rest setupControlPoints_arrays del: One_nat_def)

lemma same_length:
  "length (velocities PhysicsSystem_constructor) = length (restPositions PhysicsSystem_constructor)"
  "length (velocities (setupControlPoints ps cps)) = length (restPositions (setupControlPoints ps cps))"
  "length (velocities (fst (final (update ps cps)))) = length (velocities ps)"
  "length (restPositions (fst (final (update ps cps)))) = length (restPositions ps)"
  "length (velocities (fst (final (applyForceToPoint ps index tx ty cps)))) = length (velocities ps)"
  "length (restPositions (fst (final (applyForceToPoint ps index tx ty cps))))
     = length (restPositions ps)"
  "length (velocities (resetPoint ps index)) = length (velocities ps)"
  "length (restPositions (resetPoint ps index)) = length (restPositions ps)"
proof -
  show "length (velocities PhysicsSystem_constructor)
          = length (restPositions PhysicsSystem_constructor)"
    by (simp add: PhysicsSystem_constructor_def)
  show "length (velocities (setupControlPoints ps cps))
          = length (restPositions (setupControlPoints ps cps))"
    by (simp add: setupControlPoints_arrays)
  have b1: "length (velocities (fst (final (update_body 1 (ps, cps))))) = length (velocities ps)"
     "restPositions (fst (final (update_body 1 (ps, cps)))) = restPositions ps"
    using update_body_frame [of 1 "(ps, cps)"] by simp_all
  have b2: "length (velocities (fst (final (update_body 2 (final (update_body 1 (ps, cps)))))))
              = length (velocities (fst (final (update_body 1 (ps, cps)))))"
     "restPositions (fst (final (update_body 2 (final (update_body 1 (ps, cps))))))
              = restPositions (fst (final (update_body 1 (ps, cps))))"
    using update_body_frame [of 2 "final (update_body 1 (ps, cps))"] by simp_all
  from update_final_cases [of ps cps] b1 b2
  show "length (velocities (fst (final (update ps cps)))) = length (velocities ps)"
    by auto
  from update_final_cases [of ps cps] b1 b2
  show "length (restPositions (fst (final (update ps cps)))) = length (restPositions ps)"
    by auto
  show "length (velocities (fst (final (applyForceToPoint ps index tx ty cps))))
          = length (velocities ps)"
    by (simp add: applyForceToPoint_def Let_def split: option.splits)
  show "length (restPositions (fst (final (applyForceToPoint ps index tx ty cps))))
          = length (restPositions ps)"
    by (simp add: applyForceToPoint_def Let_def split: option.splits)
  show "length (velocities (resetPoint ps index)) = length (velocities ps)"
    by (simp add: resetPoint_def)
  show "length (restPositions (resetPoint ps index)) = length (restPositions ps)"
    by (simp add: resetPoint_def)
qed

lemma spec_step_at:
  assumes "i = 1 \<or> i = 2" and "i < length cps" and "i < length (velocities ps)"
  shows "snd (spec_step (ps, cps)) ! i =
           fst (spring_step (springConstant ps) (damping ps) (cps ! i) (velocities ps ! i)
                  (restPositions ps ! i))"
    and "velocities (fst (spec_step (ps, cps))) ! i =
           snd (spring_step (springConstant ps) (damping ps) (cps ! i) (velocities ps ! i)
                  (restPositions ps ! i))"
  using assms
  by (auto simp: spec_step_def spec_step_index_def Let_def)

lemma spec_step_frame:
  "restPositions (fst (spec_step s)) = restPositions (fst s)"
  "springConstant (fst (spec_step s)) = springConstant (fst s)"
  "damping (fst (spec_step s)) = damping (fst s)"
  "length (snd (spec_step s)) = length (snd s)"
  "length (velocities (fst (spec_step s))) = length (velocities (fst s))"
  by (simp_all add: spec_step_def spec_step_index_def Let_def)

lemma scalar_contraction:
  fixes d v :: real
  shows "\<bar>d + (v + (- 0.15 * d + - 0.88 * v))\<bar> \<le> 0.97 * max \<bar>d\<bar> \<bar>v\<bar>"
    and "\<bar>(v + (- 0.15 * d + - 0.88 * v)) * 0.995\<bar> \<le> 0.97 * max \<bar>d\<bar> \<bar>v\<bar>"
proof -
  have m: "\<bar>d\<bar> \<le> max \<bar>d\<bar> \<bar>v\<bar>" "\<bar>v\<bar> \<le> max \<bar>d\<bar> \<bar>v\<bar>"
    by simp_all
  have "\<bar>d + (v + (- 0.15 * d + - 0.88 * v))\<bar> = \<bar>0.85 * d + 0.12 * v\<bar>"
    by (simp add: algebra_simps)
  also have "\<dots> \<le> 0.85 * \<bar>d\<bar> + 0.12 * \<bar>v\<bar>"
    by (simp add: abs_if)
  also have "\<dots> \<le> 0.97 * max \<bar>d\<bar> \<bar>v\<bar>"
    using m by simp
  finally show "\<bar>d + (v + (- 0.15 * d + - 0.88 * v))\<bar> \<le> 0.97 * max \<bar>d\<bar> \<bar>v\<bar>" .
  have "\<bar>(v + (- 0.15 * d + - 0.88 * v)) * 0.995\<bar> = \<bar>0.1194 * v - 0.14925 * d\<bar>"
    by (simp add: algebra_simps)
  also have "\<dots> \<le> 0.1194 * \<bar>v\<bar> + 0.14925 * \<bar>d\<bar>"
    by (simp add: abs_if)
  also have "\<dots> \<le> 0.97 * max \<bar>d\<bar> \<bar>v\<bar>"
    using m by simp
  finally show "\<bar>(v + (- 0.15 * d + - 0.88 * v)) * 0.995\<bar> \<le> 0.97 * max \<bar>d\<bar> \<bar>v\<bar>" .
qed

lemma update_contracts:
  assumes k: "springConstant ps = 0.15" and c: "damping ps = 0.88"
    and i: "i = 1 \<or> i = 2" "i < length cps"
    and wf: "well_formed (ps, cps)"
  shows "update ps cps = Returned (spec_step (ps, cps))"
    and "amplitude i (spec_step (ps, cps)) \<le> 0.97 * amplitude i (ps, cps)"
proof -
  have pre: "\<forall>i\<in>{1, 2}. i < length cps \<longrightarrow>
               i < length (velocities ps) \<and> i < length (restPositions ps)"
    using wf by (auto simp: well_formed_def)
  have iv: "i < length (velocities ps)" using wf i by (simp add: well_formed_def)
  show "update ps cps = Returned (spec_step (ps, cps))"
    using update_returns_spec_step [OF pre] by simp
  define dx where "dx = x (cps ! i) - x (restPositions ps ! i)"
  define dy where "dy = y (cps ! i) - y (restPositions ps ! i)"
  define vx where "vx = x (velocities ps ! i)"
  define vy where "vy = y (velocities ps ! i)"
  have st: "spring_step (springConstant ps) (damping ps) (cps ! i) (velocities ps ! i)
                  (restPositions ps ! i) =
              (\<lparr>x = x (cps ! i) + (vx + (- 0.15 * dx + - 0.88 * vx)),
                y = y (cps ! i) + (vy + (- 0.15 * dy + - 0.88 * vy))\<rparr>,
               \<lparr>x = (vx + (- 0.15 * dx + - 0.88 * vx)) * 0.995,
                y = (vy + (- 0.15 * dy + - 0.88 * vy)) * 0.995\<rparr>)"
    unfolding spring_step_def Let_def vadd_def vsub_def smul_def k c dx_def dy_def vx_def vy_def
    by (simp add: mult.commute)
  have ex: "x (snd (spec_step (ps, cps)) ! i) - x (restPositions ps ! i)
              = dx + (vx + (- 0.15 * dx + - 0.88 * vx))"
    and ey: "y (snd (spec_step (ps, cps)) ! i) - y (restPositions ps ! i)
              = dy + (vy + (- 0.15 * dy + - 0.88 * vy))"
    and evx: "x (velocities (fst (spec_step (ps, cps))) ! i)
              = (vx + (- 0.15 * dx + - 0.88 * vx)) * 0.995"
    and evy: "y (velocities (fst (spec_step (ps, cps))) ! i)
              = (vy + (- 0.15 * dy + - 0.88 * vy)) * 0.995"
    unfolding spec_step_at [OF i(1) i(2) iv] st
    by (simp_all add: dx_def dy_def)
  have a0: "amplitude i (ps, cps) = max (max \<bar>dx\<bar> \<bar>vx\<bar>) (max \<bar>dy\<bar> \<bar>vy\<bar>)"
    by (simp add: amplitude_def dx_def dy_def vx_def vy_def)
  have a1: "amplitude i (spec_step (ps, cps)) =
              max (max \<bar>dx + (vx + (- 0.15 * dx + - 0.88 * vx))\<bar>
                       \<bar>(vx + (- 0.15 * dx + - 0.88 * vx)) * 0.995\<bar>)
                  (max \<bar>dy + (vy + (- 0.15 * dy + - 0.88 * vy))\<bar>
                       \<bar>(vy + (- 0.15 * dy + - 0.88 * vy)) * 0.995\<bar>)"
    unfolding amplitude_def spec_step_frame fst_conv ex ey evx evy ..
  have mx: "max \<bar>dx\<bar> \<bar>vx\<bar> \<le> amplitude i (ps, cps)"
    and my: "max \<bar>dy\<bar> \<bar>vy\<bar> \<le> amplitude i (ps, cps)"
    unfolding a0 by simp_all
  show "amplitude i (spec_step (ps, cps)) \<le> 0.97 * amplitude i (ps, cps)"
  proof -
    have sx: "0.97 * max \<bar>dx\<bar> \<bar>vx\<bar> \<le> 0.97 * amplitude i (ps, cps)"
      and sy: "0.97 * max \<bar>dy\<bar> \<bar>vy\<bar> \<le> 0.97 * amplitude i (ps, cps)"
      using mx my by simp_all
    have "\<bar>dx + (vx + (- 0.15 * dx + - 0.88 * vx))\<bar> \<le> 0.97 * amplitude i (ps, cps)"
      "\<bar>(vx + (- 0.15 * dx + - 0.88 * vx)) * 0.995\<bar> \<le> 0.97 * amplitude i (ps, cps)"
      "\<bar>dy + (vy + (- 0.15 * dy + - 0.88 * vy))\<bar> \<le> 0.97 * amplitude i (ps, cps)"
      "\<bar>(vy + (- 0.15 * dy + - 0.88 * vy)) * 0.995\<bar> \<le> 0.97 * amplitude i (ps, cps)"
      using scalar_contraction [where d = dx and v = vx, THEN order_trans, OF sx]
        scalar_contraction [where d = dy and v = vy, THEN order_trans, OF sy]
      by blast+
    then show ?thesis
      unfolding a1 by (simp only: max.bounded_iff simp_thms)
  qed
qed


lemma spec_step_well_formed:
  "well_formed s \<Longrightarrow> well_formed (spec_step s)"
  by (simp add: well_formed_def spec_step_frame)

lemma amplitude_nonneg: "0 \<le> amplitude i s"
  by (simp add: amplitude_def le_max_iff_disj)

lemma repeat_update_decay_inv:
  assumes "springConstant ps = 0.15" and "damping ps = 0.88" and "well_formed (ps, cps)"
    and "i = 1 \<or> i = 2" and "i < length cps"
  shows "\<exists>s'. repeat_update n (ps, cps) = Returned s' \<and>
              amplitude i s' \<le> 0.97 ^ n * amplitude i (ps, cps) \<and>
              springConstant (fst s') = 0.15 \<and> damping (fst s') = 0.88 \<and>
              well_formed s' \<and> i < length (snd s')"
  using assms
proof (induction n arbitrary: ps cps)
  case 0
  then show ?case by simp
next
  case (Suc n)
  obtain ps1 cps1 where s1: "spec_step (ps, cps) = (ps1, cps1)"
    by (cases "spec_step (ps, cps)")
  have u: "update ps cps = Returned (ps1, cps1)"
    and a: "amplitude i (ps1, cps1) \<le> 0.97 * amplitude i (ps, cps)"
    using update_contracts [OF Suc.prems(1) Suc.prems(2) Suc.prems(4) Suc.prems(5) Suc.prems(3)]
    unfolding s1 by simp_all
  have keep: "springConstant ps1 = 0.15" "damping ps1 = 0.88" "well_formed (ps1, cps1)"
    "i < length cps1"
    using spec_step_frame [of "(ps, cps)"] spec_step_well_formed [OF Suc.prems(3)] Suc.prems
    unfolding s1 by simp_all
  from Suc.IH [OF keep(1) keep(2) keep(3) Suc.prems(4) keep(4)]
  obtain s' where r: "repeat_update n (ps1, cps1) = Returned s'"
    and b: "amplitude i s' \<le> 0.97 ^ n * amplitude i (ps1, cps1)"
    and inv: "springConstant (fst s') = 0.15" "damping (fst s') = 0.88" "well_formed s'"
      "i < length (snd s')"
    by blast
  have m: "0.97 ^ n * amplitude i (ps1, cps1) \<le> 0.97 ^ n * (0.97 * amplitude i (ps, cps))"
    by (rule mult_left_mono [OF a]) simp
  have e: "0.97 ^ n * (0.97 * amplitude i (ps, cps)) = 0.97 ^ Suc n * amplitude i (ps, cps)"
    by simp
  from b m have "amplitude i s' \<le> 0.97 ^ n * (0.97 * amplitude i (ps, cps))"
    by (rule order_trans)
  then have "amplitude i s' \<le> 0.97 ^ Suc n * amplitude i (ps, cps)"
    unfolding e .
  moreover have "repeat_update (Suc n) (ps, cps) = Returned s'"
    using u r by simp
  ultimately show ?case using inv by blast
qed

lemma decay_499: "(0.97::real) ^ 499 < 1 / 10 ^ 6"
proof -
  have a: "(0.97::real) ^ 23 \<le> 1 / 2" by (simp add: power_divide)
  have "(0.97::real) ^ 499 = ((0.97::real) ^ 23) ^ 21 * 0.97 ^ 16"
    by (simp only: power_mult [symmetric] power_add [symmetric]) simp
  also have "\<dots> \<le> (1 / 2) ^ 21 * 1"
  proof (rule mult_mono)
    show "((0.97::real) ^ 23) ^ 21 \<le> (1 / 2) ^ 21"
      using a by (rule power_mono) simp
    show "(0.97::real) ^ 16 \<le> 1" by (rule power_le_one) simp_all
  qed simp_all
  also have "\<dots> < 1 / 10 ^ 6" by (simp add: power_divide)
  finally show ?thesis .
qed

lemma decay_after_499:
  assumes "499 \<le> n" and "0 \<le> (a::real)"
  shows "0.97 ^ n * a \<le> a / 10 ^ 6"
proof -
  have "(0.97::real) ^ n \<le> 0.97 ^ 499"
    using assms(1) by (intro power_decreasing) simp_all
  with decay_499 have "(0.97::real) ^ n \<le> 1 / 10 ^ 6" by linarith
  then have "0.97 ^ n * a \<le> (1 / 10 ^ 6) * a"
    using assms(2) by (rule mult_right_mono)
  then show ?thesis by simp
qed

lemma magnitude_le: "magnitude p \<le> sqrt 2 * max \<bar>x p\<bar> \<bar>y p\<bar>"
proof -
  define m where "m = max \<bar>x p\<bar> \<bar>y p\<bar>"
  have m0: "0 \<le> m" unfolding m_def by (simp add: le_max_iff_disj)
  have ax: "\<bar>x p\<bar> \<le> m" and ay: "\<bar>y p\<bar> \<le> m" unfolding m_def by simp_all
  have "\<bar>x p\<bar> * \<bar>x p\<bar> \<le> m * m"
    using ax ax m0 by (rule mult_mono) simp
  moreover have "\<bar>y p\<bar> * \<bar>y p\<bar> \<le> m * m"
    using ay ay m0 by (rule mult_mono) simp
  ultimately have "x p * x p + y p * y p \<le> 2 * (m * m)"
    by simp
  then have "magnitude p \<le> sqrt (2 * (m * m))"
    unfolding magnitude_def by (rule real_sqrt_le_mono)
  also have "\<dots> = sqrt 2 * m"
    using m0 by (simp add: real_sqrt_mult)
  finally show ?thesis unfolding m_def .
qed

lemma coordinates_le_magnitude: "max \<bar>x p\<bar> \<bar>y p\<bar> \<le> magnitude p"
proof -
  have "\<bar>x p\<bar> = sqrt (x p * x p)" "\<bar>y p\<bar> = sqrt (y p * y p)"
    by simp_all
  moreover have "sqrt (x p * x p) \<le> sqrt (x p * x p + y p * y p)"
    "sqrt (y p * y p) \<le> sqrt (x p * x p + y p * y p)"
    by (rule real_sqrt_le_mono, simp)+
  ultimately show ?thesis
    unfolding magnitude_def by (simp only: max.bounded_iff simp_thms)
qed

lemma amplitude_alt:
  "amplitude i s =
     max (max \<bar>x (displacement i s)\<bar> \<bar>x (velocities (fst s) ! i)\<bar>)
         (max \<bar>y (displacement i s)\<bar> \<bar>y (velocities (fst s) ! i)\<bar>)"
  by (simp add: amplitude_def displacement_def vsub_def)

lemma amplitude_bounds:
  "max \<bar>x (velocities (fst s) ! i)\<bar> \<bar>y (velocities (fst s) ! i)\<bar> \<le> amplitude i s"
  "max \<bar>x (displacement i s)\<bar> \<bar>y (displacement i s)\<bar> \<le> amplitude i s"
  "amplitude i s \<le> max (magnitude (displacement i s)) (magnitude (velocities (fst s) ! i))"
proof -
  show "max \<bar>x (velocities (fst s) ! i)\<bar> \<bar>y (velocities (fst s) ! i)\<bar> \<le> amplitude i s"
    unfolding amplitude_alt by (rule max.boundedI) (simp_all add: le_max_iff_disj)
  show "max \<bar>x (displacement i s)\<bar> \<bar>y (displacement i s)\<bar> \<le> amplitude i s"
    unfolding amplitude_alt by (rule max.boundedI) (simp_all add: le_max_iff_disj)
  have d: "\<bar>x (displacement i s)\<bar> \<le> magnitude (displacement i s)"
    "\<bar>y (displacement i s)\<bar> \<le> magnitude (displacement i s)"
    using coordinates_le_magnitude [of "displacement i s"] by simp_all
  have v: "\<bar>x (velocities (fst s) ! i)\<bar> \<le> magnitude (velocities (fst s) ! i)"
    "\<bar>y (velocities (fst s) ! i)\<bar> \<le> magnitude (velocities (fst s) ! i)"
    using coordinates_le_magnitude [of "velocities (fst s) ! i"] by simp_all
  show "amplitude i s \<le> max (magnitude (displacement i s)) (magnitude (velocities (fst s) ! i))"
    unfolding amplitude_alt
    using d [THEN order_trans, OF max.cobounded1] v [THEN order_trans, OF max.cobounded2]
    by (simp only: max.bounded_iff simp_thms)
qed

lemma magnitudes_le_amplitude:
  "magnitude (velocities (fst s) ! i) \<le> sqrt 2 * amplitude i s"
  "magnitude (displacement i s) \<le> sqrt 2 * amplitude i s"
proof -
  have "sqrt 2 * max \<bar>x (velocities (fst s) ! i)\<bar> \<bar>y (velocities (fst s) ! i)\<bar>
          \<le> sqrt 2 * amplitude i s"
    using amplitude_bounds(1) [of s i] by (intro mult_left_mono) simp_all
  with magnitude_le [of "velocities (fst s) ! i"]
  show "magnitude (velocities (fst s) ! i) \<le> sqrt 2 * amplitude i s" by (rule order_trans)
  have "sqrt 2 * max \<bar>x (displacement i s)\<bar> \<bar>y (displacement i s)\<bar>
          \<le> sqrt 2 * amplitude i s"
    using amplitude_bounds(2) [of i s] by (intro mult_left_mono) simp_all
  with magnitude_le [of "displacement i s"]
  show "magnitude (displacement i s) \<le> sqrt 2 * amplitude i s" by (rule order_trans)
qed

lemma repeat_update_snoc:
  "repeat_update (Suc n) s =
     (case repeat_update n s of
        Threw e s' \<Rightarrow> Threw e s'
      | Returned s' \<Rightarrow> update (fst s') (snd s'))"
proof (induction n arbitrary: s)
  case 0
  show ?case by (simp split: outcome.splits)
next
  case (Suc n)
  show ?case
  proof (cases "update (fst s) (snd s)")
    case (Returned s1)
    have "repeat_update (Suc (Suc n)) s = repeat_update (Suc n) s1"
      using Returned by simp
    also have "\<dots> = (case repeat_update n s1 of
        Threw e s' \<Rightarrow> Threw e s'
      | Returned s' \<Rightarrow> update (fst s') (snd s'))"
      by (rule Suc.IH)
    also have "repeat_update n s1 = repeat_update (Suc n) s"
      using Returned by simp
    finally show ?thesis .
  next
    case (Threw e s1)
    then show ?thesis by simp
  qed
qed

lemma setup_loop_fields:
  "setup_loop i cps ps =
     ps\<lparr>velocities := velocities (setup_loop i cps ps),
        restPositions := restPositions (setup_loop i cps ps)\<rparr>"
proof (induction i cps ps rule: setup_loop.induct)
  case (1 i cps ps)
  show ?case
  proof (cases "i < length cps")
    case True
    have e: "setup_loop i cps ps = setup_loop (i + 1) cps
             (ps\<lparr>velocities := velocities ps @ [\<lparr>x = 0, y = 0\<rparr>],
                 restPositions := restPositions ps @ [cps ! i]\<rparr>)"
      using True by (subst setup_loop.simps) simp
    show ?thesis
      unfolding e by (subst "1.IH" [OF True]) simp
  next
    case False
    then have "setup_loop i cps ps = ps" by (subst setup_loop.simps) simp
    then show ?thesis by simp
  qed
qed

lemma setupControlPoints_eq:
  "setupControlPoints ps cps =
     ps\<lparr>velocities := replicate (length cps) \<lparr>x = 0, y = 0\<rparr>, restPositions := cps\<rparr>"
proof -
  have "setupControlPoints ps cps =
          (ps\<lparr>velocities := [], restPositions := []\<rparr>)
            \<lparr>velocities := velocities (setupControlPoints ps cps),
             restPositions := restPositions (setupControlPoints ps cps)\<rparr>"
    unfolding setupControlPoints_def by (rule setup_loop_fields)
  then show ?thesis by (simp add: setupControlPoints_arrays)
qed

lemma injected_world_eq:
  "injected_world =
     (PhysicsSystem_constructor
        \<lparr>velocities := [\<lparr>x = 0, y = 0\<rparr>, \<lparr>x = 5, y = 3\<rparr>, \<lparr>x = 0, y = 0\<rparr>, \<lparr>x = 0, y = 0\<rparr>],
         restPositions := [\<lparr>x = 100, y = 100\<rparr>, \<lparr>x = 240, y = 74\<rparr>, \<lparr>x = 300, y = 150\<rparr>,
                           \<lparr>x = 400, y = 100\<rparr>]\<rparr>,
      demo_controlPoints)"
  unfolding injected_world_def setupControlPoints_eq
  by (simp add: applyForceToPoint_def lookup_def Let_def demo_controlPoints_def
      PhysicsSystem_constructor_def eval_nat_numeral)

lemma injected_world_step:
  "update (fst injected_world) (snd injected_world) =
     Returned
       (PhysicsSystem_constructor
          \<lparr>velocities := [\<lparr>x = 0, y = 0\<rparr>, \<lparr>x = 6.567, y = 3.9402\<rparr>, \<lparr>x = 0, y = 0\<rparr>,
                          \<lparr>x = 0, y = 0\<rparr>],
           restPositions := [\<lparr>x = 100, y = 100\<rparr>, \<lparr>x = 240, y = 74\<rparr>, \<lparr>x = 300, y = 150\<rparr>,
                             \<lparr>x = 400, y = 100\<rparr>]\<rparr>,
        [\<lparr>x = 100, y = 100\<rparr>, \<lparr>x = 206.6, y = 53.96\<rparr>, \<lparr>x = 300, y = 150\<rparr>,
         \<lparr>x = 400, y = 100\<rparr>])"
proof -
  have h: "\<forall>i\<in>{1, 2}. i < length (snd injected_world) \<longrightarrow>
             i < length (velocities (fst injected_world)) \<and>
             i < length (restPositions (fst injected_world))"
    by (simp add: injected_world_eq demo_controlPoints_def)
  show ?thesis
    using update_returns_spec_step [OF h]
    by (simp add: injected_world_eq spec_step_def spec_step_index_def spring_step_def vadd_def
        vsub_def smul_def demo_controlPoints_def PhysicsSystem_constructor_def Let_def
        numeral_2_eq_2)
qed

text \<open>
  The velocity magnitude alone does not decay monotonically. In the demo script's scenario
  the velocity of point 1 is \<open>(5, 3)\<close> after the force application and
  \<open>(6.567, 3.9402)\<close> after the first \<open>update\<close> that follows: the spring accelerates the
  point toward the moved anchor, and the magnitude grows in that step.
\<close>

theorem velocity_magnitude_grows:
  "velocities (fst injected_world) ! 1 = \<lparr>x = 5, y = 3\<rparr>
   \<and> returns (repeat_update 1 injected_world)
   \<and> velocities (fst (final (repeat_update 1 injected_world))) ! 1
       = \<lparr>x = 6.567, y = 3.9402\<rparr>
   \<and> magnitude (velocities (fst (final (repeat_update 0 injected_world))) ! 1)
       < magnitude (velocities (fst (final (repeat_update 1 injected_world))) ! 1)"
proof -
  have r: "repeat_update 1 injected_world =
             update (fst injected_world) (snd injected_world)"
    by (simp add: injected_world_step)
  have v0: "velocities (fst injected_world) ! 1 = \<lparr>x = 5, y = 3\<rparr>"
    by (simp add: injected_world_eq)
  have v1: "velocities (fst (final (repeat_update 1 injected_world))) ! 1
              = \<lparr>x = 6.567, y = 3.9402\<rparr>"
    unfolding r injected_world_step by simp
  have ret: "returns (repeat_update 1 injected_world)"
    unfolding r injected_world_step by simp
  have m: "magnitude (velocities (fst (final (repeat_update 0 injected_world))) ! 1)
       < magnitude (velocities (fst (final (repeat_update 1 injected_world))) ! 1)"
  proof -
    have m0: "velocities (fst (final (repeat_update 0 injected_world))) ! 1 = \<lparr>x = 5, y = 3\<rparr>"
      by (simp add: injected_world_eq)
    show ?thesis unfolding m0 v1 by (simp add: magnitude_def)
  qed
  from v0 ret v1 m show ?thesis by blast
qed

text \<open>
  C6, as the code has it. After \<open>setupControlPoints\<close> on a control point array, any number
  of calls of \<open>update\<close> on that array, with no \<open>applyForceToPoint\<close> in between, all return
  and leave the state as it was: at both dynamic indices the velocity and the displacement
  from the anchor are zero after every step, for every spring constant and damping.

  From any well formed state, with the default constants 0.15 and 0.88, every run of
  \<open>update\<close> calls returns and the system settles: each step multiplies the amplitude of a
  dynamic point (the largest coordinate of its displacement and velocity) by at most 0.97,
  so the amplitude never grows and after 499 steps is at most a millionth of what it was.
  The velocity magnitude and the displacement magnitude after \<open>n\<close> steps are each at most
  \<open>sqrt 2 * 0.97 ^ n\<close> times the larger of the two initial magnitudes, so both go to zero;
  it is the amplitude, not each magnitude, that decays monotonically.
\<close>

theorem system_settles:
  "repeat_update n (setupControlPoints ps cps, cps) = Returned (setupControlPoints ps cps, cps)
   \<and> (\<forall>i\<in>{1, 2}. i < length cps \<longrightarrow>
        velocities (fst (final (repeat_update n (setupControlPoints ps cps, cps)))) ! i
          = \<lparr>x = 0, y = 0\<rparr> \<and>
        vsub (snd (final (repeat_update n (setupControlPoints ps cps, cps))) ! i)
             (restPositions (fst (final (repeat_update n (setupControlPoints ps cps, cps)))) ! i)
          = \<lparr>x = 0, y = 0\<rparr>)
   \<and> (springConstant ps' = 0.15 \<and> damping ps' = 0.88 \<and> well_formed (ps', cps') \<and>
        (i = 1 \<or> i = 2) \<and> i < length cps' \<longrightarrow>
        (\<exists>s' s''. repeat_update n (ps', cps') = Returned s' \<and>
              repeat_update (Suc n) (ps', cps') = Returned s'' \<and>
              amplitude i s'' \<le> 0.97 * amplitude i s' \<and>
              amplitude i s' \<le> 0.97 ^ n * amplitude i (ps', cps') \<and>
              amplitude i s' \<le> amplitude i (ps', cps') \<and>
              (499 \<le> n \<longrightarrow> amplitude i s' \<le> amplitude i (ps', cps') / 10 ^ 6) \<and>
              amplitude i (ps', cps')
                \<le> max (magnitude (displacement i (ps', cps'))) (magnitude (velocities ps' ! i)) \<and>
              magnitude (velocities (fst s') ! i) \<le> sqrt 2 * amplitude i s' \<and>
              magnitude (displacement i s') \<le> sqrt 2 * amplitude i s' \<and>
              magnitude (velocities (fst s') ! i)
                \<le> sqrt 2 * 0.97 ^ n *
                    max (magnitude (displacement i (ps', cps'))) (magnitude (velocities ps' ! i)) \<and>
              magnitude (displacement i s')
                \<le> sqrt 2 * 0.97 ^ n *
                    max (magnitude (displacement i (ps', cps'))) (magnitude (velocities ps' ! i))))"
proof -
  have stay: "repeat_update n (setupControlPoints ps cps, cps)
               = Returned (setupControlPoints ps cps, cps)"
    by (induction n) (simp_all add: update_at_rest)
  have zero: "\<forall>i\<in>{1, 2}. i < length cps \<longrightarrow>
        velocities (fst (final (repeat_update n (setupControlPoints ps cps, cps)))) ! i
          = \<lparr>x = 0, y = 0\<rparr> \<and>
        vsub (snd (final (repeat_update n (setupControlPoints ps cps, cps))) ! i)
             (restPositions (fst (final (repeat_update n (setupControlPoints ps cps, cps)))) ! i)
          = \<lparr>x = 0, y = 0\<rparr>"
    unfolding stay by (simp add: setupControlPoints_arrays vsub_def)
  have general: "\<exists>s' s''. repeat_update n (ps', cps') = Returned s' \<and>
              repeat_update (Suc n) (ps', cps') = Returned s'' \<and>
              amplitude i s'' \<le> 0.97 * amplitude i s' \<and>
              amplitude i s' \<le> 0.97 ^ n * amplitude i (ps', cps') \<and>
              amplitude i s' \<le> amplitude i (ps', cps') \<and>
              (499 \<le> n \<longrightarrow> amplitude i s' \<le> amplitude i (ps', cps') / 10 ^ 6) \<and>
              amplitude i (ps', cps')
                \<le> max (magnitude (displacement i (ps', cps'))) (magnitude (velocities ps' ! i)) \<and>
              magnitude (velocities (fst s') ! i) \<le> sqrt 2 * amplitude i s' \<and>
              magnitude (displacement i s') \<le> sqrt 2 * amplitude i s' \<and>
              magnitude (velocities (fst s') ! i)
                \<le> sqrt 2 * 0.97 ^ n *
                    max (magnitude (displacement i (ps', cps'))) (magnitude (velocities ps' ! i)) \<and>
              magnitude (displacement i s')
                \<le> sqrt 2 * 0.97 ^ n *
                    max (magnitude (displacement i (ps', cps'))) (magnitude (velocities ps' ! i))"
    if h: "springConstant ps' = 0.15" "damping ps' = 0.88" "well_formed (ps', cps')"
      "i = 1 \<or> i = 2" "i < length cps'"
  proof -
    define A where "A = amplitude i (ps', cps')"
    define M where
      "M = max (magnitude (displacement i (ps', cps'))) (magnitude (velocities ps' ! i))"
    from repeat_update_decay_inv [OF h, of n]
    obtain s' where r: "repeat_update n (ps', cps') = Returned s'"
      and b: "amplitude i s' \<le> 0.97 ^ n * A"
      and inv: "springConstant (fst s') = 0.15" "damping (fst s') = 0.88" "well_formed s'"
        "i < length (snd s')"
      unfolding A_def by blast
    obtain ps1 cps1 where s': "s' = (ps1, cps1)" by (cases s')
    have inv1: "springConstant ps1 = 0.15" "damping ps1 = 0.88" "well_formed (ps1, cps1)"
      "i < length cps1"
      using inv unfolding s' by simp_all
    have u: "update ps1 cps1 = Returned (spec_step (ps1, cps1))"
      and c1: "amplitude i (spec_step (ps1, cps1)) \<le> 0.97 * amplitude i (ps1, cps1)"
      using update_contracts [OF inv1(1) inv1(2) h(4) inv1(4) inv1(3)] by simp_all
    have r2: "repeat_update (Suc n) (ps', cps') = Returned (spec_step (ps1, cps1))"
      unfolding repeat_update_snoc r s' using u by simp
    have A0: "0 \<le> A" unfolding A_def by (rule amplitude_nonneg)
    have "(0.97::real) ^ n \<le> 1" by (rule power_le_one) simp_all
    then have "0.97 ^ n * A \<le> 1 * A"
      using A0 by (rule mult_right_mono)
    with b have c: "amplitude i s' \<le> A" by simp
    have d: "amplitude i s' \<le> A / 10 ^ 6" if "499 \<le> n"
      using b decay_after_499 [OF that A0] by linarith
    have AM: "A \<le> M"
      unfolding A_def M_def using amplitude_bounds(3) [of i "(ps', cps')"] by simp
    have mv: "magnitude (velocities (fst s') ! i) \<le> sqrt 2 * amplitude i s'"
      and md: "magnitude (displacement i s') \<le> sqrt 2 * amplitude i s'"
      by (rule magnitudes_le_amplitude)+
    have "0.97 ^ n * A \<le> 0.97 ^ n * M"
      using AM by (intro mult_left_mono) simp_all
    with b have "amplitude i s' \<le> 0.97 ^ n * M" by linarith
    then have "sqrt 2 * amplitude i s' \<le> sqrt 2 * (0.97 ^ n * M)"
      by (intro mult_left_mono) simp_all
    then have bound: "sqrt 2 * amplitude i s' \<le> sqrt 2 * 0.97 ^ n * M"
      by (simp add: mult.assoc)
    from mv bound have fv: "magnitude (velocities (fst s') ! i) \<le> sqrt 2 * 0.97 ^ n * M"
      by (rule order_trans)
    from md bound have fd: "magnitude (displacement i s') \<le> sqrt 2 * 0.97 ^ n * M"
      by (rule order_trans)
    from c1 have c1': "amplitude i (spec_step (ps1, cps1)) \<le> 0.97 * amplitude i s'"
      unfolding s' .
    from r r2 c1' b c d AM mv md fv fd show ?thesis
      unfolding A_def M_def by blast
  qed
  from stay zero general show ?thesis by blast
qed

theorem system_settles_witness:
  "repeat_update 499 (setupControlPoints PhysicsSystem_constructor demo_controlPoints,
                      demo_controlPoints)
     = Returned (setupControlPoints PhysicsSystem_constructor demo_controlPoints,
                 demo_controlPoints)
   \<and> velocities (fst (final (repeat_update 499
         (setupControlPoints PhysicsSystem_constructor demo_controlPoints,
          demo_controlPoints)))) ! 1 = \<lparr>x = 0, y = 0\<rparr>
   \<and> vsub (snd (final (repeat_update 499
               (setupControlPoints PhysicsSystem_constructor demo_controlPoints,
                demo_controlPoints))) ! 2)
           (restPositions (fst (final (repeat_update 499
               (setupControlPoints PhysicsSystem_constructor demo_controlPoints,
                demo_controlPoints)))) ! 2) = \<lparr>x = 0, y = 0\<rparr>
   \<and> springConstant (fst injected_world) = 0.15 \<and> damping (fst injected_world) = 0.88
   \<and> well_formed injected_world
   \<and> amplitude 1 injected_world = 40
   \<and> (\<exists>s' s''. repeat_update 499 injected_world = Returned s' \<and>
            repeat_update 500 injected_world = Returned s'' \<and>
            amplitude 1 s'' \<le> 0.97 * amplitude 1 s' \<and>
            amplitude 1 s' \<le> 1 / 10 ^ 4 \<and>
            magnitude (velocities (fst s') ! 1) \<le> sqrt 2 / 10 ^ 4 \<and>
            magnitude (displacement 1 s') \<le> sqrt 2 / 10 ^ 4)"
proof -
  obtain psi cpsi where w: "injected_world = (psi, cpsi)"
    by (cases injected_world)
  note T = system_settles [of 499 PhysicsSystem_constructor demo_controlPoints psi cpsi 1]
  have l: "1 < length demo_controlPoints" "2 < length demo_controlPoints"
    by (simp_all add: demo_controlPoints_def)
  have p: "springConstant (fst injected_world) = 0.15" "damping (fst injected_world) = 0.88"
    "well_formed injected_world" "1 < length (snd injected_world)"
    by (simp_all add: injected_world_eq PhysicsSystem_constructor_def well_formed_def
        demo_controlPoints_def)
  have a: "amplitude 1 injected_world = 40"
    by (simp add: amplitude_def injected_world_eq demo_controlPoints_def)
  have hyp: "springConstant psi = 0.15 \<and> damping psi = 0.88 \<and> well_formed (psi, cpsi) \<and>
        ((1::nat) = 1 \<or> (1::nat) = 2) \<and> 1 < length cpsi"
    using p unfolding w by simp
  from T hyp obtain s' s'' where
    r: "repeat_update 499 (psi, cpsi) = Returned s'"
    and r2: "repeat_update (Suc 499) (psi, cpsi) = Returned s''"
    and c: "amplitude 1 s'' \<le> 0.97 * amplitude 1 s'"
    and d: "amplitude 1 s' \<le> amplitude 1 (psi, cpsi) / 10 ^ 6"
    and mv: "magnitude (velocities (fst s') ! 1) \<le> sqrt 2 * amplitude 1 s'"
    and md: "magnitude (displacement 1 s') \<le> sqrt 2 * amplitude 1 s'"
    by blast
  have small: "amplitude 1 s' \<le> 1 / 10 ^ 4"
    using d a unfolding w by simp
  then have "sqrt 2 * amplitude 1 s' \<le> sqrt 2 * (1 / 10 ^ 4)"
    by (intro mult_left_mono) simp_all
  then have s2: "sqrt 2 * amplitude 1 s' \<le> sqrt 2 / 10 ^ 4" by simp
  have e: "\<exists>s' s''. repeat_update 499 injected_world = Returned s' \<and>
            repeat_update 500 injected_world = Returned s'' \<and>
            amplitude 1 s'' \<le> 0.97 * amplitude 1 s' \<and>
            amplitude 1 s' \<le> 1 / 10 ^ 4 \<and>
            magnitude (velocities (fst s') ! 1) \<le> sqrt 2 / 10 ^ 4 \<and>
            magnitude (displacement 1 s') \<le> sqrt 2 / 10 ^ 4"
  proof (intro exI conjI)
    show "repeat_update 499 injected_world = Returned s'" unfolding w by (rule r)
    have "(500::nat) = Suc 499" by simp
    then show "repeat_update 500 injected_world = Returned s''"
      unfolding w using r2 by (simp only:)
    show "amplitude 1 s'' \<le> 0.97 * amplitude 1 s'" by (rule c)
    show "amplitude 1 s' \<le> 1 / 10 ^ 4" by (rule small)
    show "magnitude (velocities (fst s') ! 1) \<le> sqrt 2 / 10 ^ 4"
      using mv s2 by (rule order_trans)
    show "magnitude (displacement 1 s') \<le> sqrt 2 / 10 ^ 4"
      using md s2 by (rule order_trans)
  qed
  from T l have f: "repeat_update 499 (setupControlPoints PhysicsSystem_constructor demo_controlPoints,
                      demo_controlPoints)
     = Returned (setupControlPoints PhysicsSystem_constructor demo_controlPoints,
                 demo_controlPoints)"
    and g: "velocities (fst (final (repeat_update 499
         (setupControlPoints PhysicsSystem_constructor demo_controlPoints,
          demo_controlPoints)))) ! 1 = \<lparr>x = 0, y = 0\<rparr>"
    and h: "vsub (snd (final (repeat_update 499
               (setupControlPoints PhysicsSystem_constructor demo_controlPoints,
                demo_controlPoints))) ! 2)
           (restPositions (fst (final (repeat_update 499
               (setupControlPoints PhysicsSystem_constructor demo_controlPoints,
                demo_controlPoints)))) ! 2) = \<lparr>x = 0, y = 0\<rparr>"
    by auto
  from f g h p(1) p(2) p(3) a e show ?thesis by blast
qed

section \<open>The input handler\<close>

lemma call_applyForceToPoint_flags:
  "isInteracting (final (call_applyForceToPoint h index)) = isInteracting h \<and>
   activePointIndex (final (call_applyForceToPoint h index)) = activePointIndex h \<and>
   mouse (final (call_applyForceToPoint h index)) = mouse h \<and>
   interactionRadius (final (call_applyForceToPoint h index)) = interactionRadius h"
proof (cases "applyForceToPoint (physics h) index (x (mouse h)) (y (mouse h))
                (controlPoints (bezier h))")
  case (Returned w)
  then show ?thesis by (cases w) (simp add: call_applyForceToPoint_def)
next
  case (Threw e w)
  then show ?thesis by (cases w) (simp add: call_applyForceToPoint_def)
qed

lemma handleMouseDown_loop_invariant:
  "1 \<le> i \<Longrightarrow> interaction_invariant h \<Longrightarrow>
     interaction_invariant (final (handleMouseDown_loop i h))"
proof (induction i h rule: handleMouseDown_loop.induct)
  case (1 i h)
  show ?case
  proof (cases "i \<le> 2")
    case False
    then show ?thesis using 1 by (subst handleMouseDown_loop.simps) simp
  next
    case le: True
    show ?thesis
    proof (cases "i \<ge> length (controlPoints (bezier h))")
      case True
      then show ?thesis
        using 1 le by (subst handleMouseDown_loop.simps) simp
    next
      case inside: False
      show ?thesis
      proof (cases "distance (mouse h) (controlPoints (bezier h) ! i) < interactionRadius h")
        case True
        have "i = 1 \<or> i = 2" using le "1.prems" by auto
        then have "interaction_invariant
                     (final (call_applyForceToPoint
                        (h\<lparr>isInteracting := True, activePointIndex := int i\<rparr>) (int i)))"
          by (auto simp: interaction_invariant_def call_applyForceToPoint_flags)
        then show ?thesis
          using le inside True by (subst handleMouseDown_loop.simps) simp
      next
        case False
        then show ?thesis
          using 1 le inside by (subst handleMouseDown_loop.simps) simp
      qed
    qed
  qed
qed

lemma handleMouseMove_flags:
  "isInteracting (final (handleMouseMove h cx cy l t)) = isInteracting h \<and>
   activePointIndex (final (handleMouseMove h cx cy l t)) = activePointIndex h"
  unfolding handleMouseMove_def Let_def
  by (simp add: call_applyForceToPoint_flags)

lemma InputHandler_update_flags:
  "isInteracting (final (InputHandler_update h)) = isInteracting h \<and>
   activePointIndex (final (InputHandler_update h)) = activePointIndex h"
  unfolding InputHandler_update_def
  by (simp add: call_applyForceToPoint_flags)

lemma interaction_invariant_same_flags:
  assumes "isInteracting h' = isInteracting h" and "activePointIndex h' = activePointIndex h"
    and "interaction_invariant h"
  shows "interaction_invariant h'"
  using assms(3) unfolding interaction_invariant_def assms(1) assms(2) .

lemma interaction_invariant_released:
  "interaction_invariant (h\<lparr>isInteracting := False, activePointIndex := - 1\<rparr>)"
  by (simp add: interaction_invariant_def)

lemma handle_invariant:
  assumes "interaction_invariant h"
  shows "interaction_invariant (final (handle e h))"
proof (cases e)
  case (MouseMove cx cy l t)
  have "interaction_invariant (final (handleMouseMove h cx cy l t))"
    by (rule interaction_invariant_same_flags [OF _ _ assms])
       (simp_all add: handleMouseMove_flags)
  with MouseMove show ?thesis by simp
next
  case MouseDown
  have "interaction_invariant (final (handleMouseDown_loop 1 h))"
    using assms by (intro handleMouseDown_loop_invariant) simp_all
  with MouseDown show ?thesis by (simp add: handleMouseDown_def)
next
  case MouseUp
  then show ?thesis by (simp add: handleMouseUp_def interaction_invariant_released)
next
  case MouseLeave
  then show ?thesis by (simp add: handleMouseLeave_def interaction_invariant_released)
next
  case Update
  have "interaction_invariant (final (InputHandler_update h))"
    by (rule interaction_invariant_same_flags [OF _ _ assms])
       (simp_all add: InputHandler_update_flags)
  with Update show ?thesis by simp
next
  case (SetInteractionRadius r)
  have "interaction_invariant (setInteractionRadius h r)"
    by (rule interaction_invariant_same_flags [OF _ _ assms])
       (simp_all add: setInteractionRadius_def)
  with SetInteractionRadius show ?thesis by simp
qed

lemma reachable_invariant: "reachable h \<Longrightarrow> interaction_invariant h"
proof (induction rule: reachable.induct)
  case (constructed b ps)
  show ?case by (simp add: interaction_invariant_def InputHandler_constructor_def)
next
  case (handled h e)
  then show ?case by (simp add: handle_invariant)
next
  case (environment h b ps)
  show ?case
    by (rule interaction_invariant_same_flags [OF _ _ environment.IH]) simp_all
qed

text \<open>
  C9. In every state the handler reaches from its construction, through any sequence of
  \<open>handleMouseMove\<close>, \<open>handleMouseDown\<close>, \<open>handleMouseUp\<close>, \<open>handleMouseLeave\<close>,
  \<open>update\<close> and \<open>setInteractionRadius\<close> calls, whatever the curve and the simulator hold
  and however they are changed in between, \<open>isInteracting\<close> is true exactly when
  \<open>activePointIndex\<close> is 1 or 2, and when it is false \<open>activePointIndex\<close> is -1; so
  \<open>activePointIndex\<close> is never 0, 3 or anything else than -1, 1 and 2.
\<close>

theorem interaction_state_consistent:
  assumes "reachable h"
  shows "(isInteracting h \<longleftrightarrow> activePointIndex h \<in> {1, 2}) \<and>
         (\<not> isInteracting h \<longrightarrow> activePointIndex h = - 1) \<and>
         activePointIndex h \<in> {- 1, 1, 2}"
proof -
  have a: "isInteracting h \<longleftrightarrow> activePointIndex h \<in> {1, 2}"
    and b: "\<not> isInteracting h \<longrightarrow> activePointIndex h = - 1"
    using reachable_invariant [OF assms] unfolding interaction_invariant_def by blast+
  from a b show ?thesis by blast
qed

lemma pressed_handler_reachable: "reachable pressed_handler"
  unfolding pressed_handler_def by (intro reachable.handled reachable.constructed)

lemma pressed_handler_interacting: "isInteracting pressed_handler"
proof -
  define h0 where "h0 = InputHandler_constructor demo_bezier
             (setupControlPoints PhysicsSystem_constructor demo_controlPoints)"
  define h1 where "h1 = h0\<lparr>mouse := \<lparr>x = 200, y = 50\<rparr>\<rparr>"
  have m: "final (handle (MouseMove 200 50 0 0) h0) = h1"
    by (simp add: handleMouseMove_def Let_def h0_def h1_def InputHandler_constructor_def)
  have hit: "distance (mouse h1) (controlPoints (bezier h1) ! 1) < interactionRadius h1"
    by (simp add: h1_def h0_def InputHandler_constructor_def demo_bezier_def
        demo_controlPoints_def distance_def BezierCurve_constructor_def)
  have len: "\<not> 1 \<ge> length (controlPoints (bezier h1))"
    by (simp add: h1_def h0_def InputHandler_constructor_def demo_bezier_def
        demo_controlPoints_def BezierCurve_constructor_def)
  have "handleMouseDown_loop 1 h1 =
          call_applyForceToPoint (h1\<lparr>isInteracting := True, activePointIndex := int 1\<rparr>) (int 1)"
    using hit len by (subst handleMouseDown_loop.simps) (simp del: One_nat_def)
  then have "isInteracting (final (handle MouseDown h1))"
    by (simp add: handleMouseDown_def call_applyForceToPoint_flags del: One_nat_def)
  then show ?thesis
    unfolding pressed_handler_def h0_def [symmetric] m .
qed

theorem interaction_state_consistent_witness:
  "reachable pressed_handler \<and> isInteracting pressed_handler \<and>
   activePointIndex pressed_handler \<in> {1, 2} \<and>
   reachable (handleMouseUp pressed_handler) \<and>
   \<not> isInteracting (handleMouseUp pressed_handler) \<and>
   activePointIndex (handleMouseUp pressed_handler) = - 1"
proof -
  have up: "reachable (handleMouseUp pressed_handler)"
    using reachable.handled [OF pressed_handler_reachable, of MouseUp] by simp
  have idle: "\<not> isInteracting (handleMouseUp pressed_handler)"
    by (simp add: handleMouseUp_def)
  show ?thesis
    using interaction_state_consistent [OF pressed_handler_reachable]
      interaction_state_consistent [OF up]
      pressed_handler_reachable pressed_handler_interacting up idle
    by blast
qed

end
